theory Spec2Isabelle
  imports Main "HOL-Library.Multiset"
begin

section \<open>Dates, time deltas and errors\<close>

text \<open>
  The program works on \<^verbatim>\<open>datetime.date\<close> values. A date is modelled by its proleptic
  Gregorian ordinal (\<^verbatim>\<open>date.toordinal()\<close>): 0001-01-01 is day 1 and 9999-12-31 is day
  3652059. The difference of two dates is a number of days; adding a \<^verbatim>\<open>timedelta\<close> to
  a date raises \<^verbatim>\<open>OverflowError\<close> when the result leaves that range, and building a
  \<^verbatim>\<open>timedelta\<close> of more than 999999999 days raises \<^verbatim>\<open>OverflowError\<close> too.
\<close>

type_synonym pydate = int

datatype error = ZeroDivisionError | OverflowError | IndexError

definition MINORD :: int where
  "MINORD = 1"

definition MAXORD :: int where
  "MAXORD = 3652059"

definition valid_date :: "pydate \<Rightarrow> bool" where
  "valid_date d \<longleftrightarrow> MINORD \<le> d \<and> d \<le> MAXORD"

definition is_leap :: "int \<Rightarrow> bool" where
  "is_leap y = (if y mod 100 = 0 then y mod 400 = 0 else y mod 4 = 0)"

definition days_before_year :: "int \<Rightarrow> int" where
  "days_before_year y = (y - 1) * 365 + (y - 1) div 4 - (y - 1) div 100 + (y - 1) div 400"

definition days_in_month :: "int \<Rightarrow> int \<Rightarrow> int" where
  "days_in_month y m =
     (if m = 2 then (if is_leap y then 29 else 28)
      else if m = 4 \<or> m = 6 \<or> m = 9 \<or> m = 11 then 30 else 31)"

definition days_before_month :: "int \<Rightarrow> int \<Rightarrow> int" where
  "days_before_month y m = sum_list (map (days_in_month y) [1 .. m - 1])"

text \<open>\<^verbatim>\<open>date(y, m, d).toordinal()\<close>, used to write the calendar dates of the examples.\<close>

definition ymd :: "int \<Rightarrow> int \<Rightarrow> int \<Rightarrow> pydate" where
  "ymd y m d = days_before_year y + days_before_month y m + d"

text \<open>\<^verbatim>\<open>timedelta(days=n)\<close>: the number of days, or \<^verbatim>\<open>OverflowError\<close>.\<close>

definition timedelta :: "int \<Rightarrow> error + int" where
  "timedelta n = (if \<bar>n\<bar> > 999999999 then Inl OverflowError else Inr n)"

text \<open>\<^verbatim>\<open>d + delta\<close> for a date and a time delta already built.\<close>

definition date_add :: "pydate \<Rightarrow> int \<Rightarrow> error + pydate" where
  "date_add d n =
     (if MINORD \<le> d + n \<and> d + n \<le> MAXORD then Inr (d + n) else Inl OverflowError)"

text \<open>\<^verbatim>\<open>d + timedelta(days=n)\<close>: the delta is built first, then added.\<close>

definition plus_days :: "pydate \<Rightarrow> int \<Rightarrow> error + pydate" where
  "plus_days d n = (case timedelta n of Inl e \<Rightarrow> Inl e | Inr k \<Rightarrow> date_add d k)"

text \<open>\<^verbatim>\<open>d - timedelta(days=n)\<close>, which Python computes as \<^verbatim>\<open>d + (-delta)\<close>.\<close>

definition minus_days :: "pydate \<Rightarrow> int \<Rightarrow> error + pydate" where
  "minus_days d n = (case timedelta n of Inl e \<Rightarrow> Inl e | Inr k \<Rightarrow> date_add d (- k))"

section \<open>Rounding\<close>

text \<open>
  \<^verbatim>\<open>round(a / b)\<close> for integers \<open>a\<close> and \<open>b > 0\<close>. Python's \<^verbatim>\<open>/\<close> gives the double
  nearest to the exact quotient and \<^verbatim>\<open>round\<close> of a double rounds to the nearest
  integer, a tie going to the even neighbour. The model rounds the exact quotient that
  way; the two agree as long as \<open>a\<close> and \<open>b\<close> stay below \<open>2 ^ 50\<close>, which holds for
  sums of day counts over any list of dates a Python process can hold. Both call sites
  guard against \<open>b = 0\<close>.
\<close>

definition py_round_div :: "int \<Rightarrow> int \<Rightarrow> int" where
  "py_round_div a b =
     (let q = a div b; r = a mod b
      in if 2 * r < b then q
         else if 2 * r > b then q + 1
         else if even q then q else q + 1)"

section \<open>Data model\<close>

text \<open>One entry of \<^verbatim>\<open>st.session_state.periods\<close>: \<^verbatim>\<open>{'start': date, 'end': date}\<close>.\<close>

record period =
  p_start :: pydate
  p_end :: pydate

text \<open>The keys of \<^verbatim>\<open>st.session_state\<close> that the program initialises.\<close>

record session_state =
  ss_periods :: "period list"
  ss_avg_cycle :: int
  ss_avg_period_length :: int
  ss_query_date :: pydate

text \<open>
  \<^verbatim>\<open>result['current_stage']\<close> is a label with a day number formatted into it. The
  constructors stand for the seven labels, in the order of the source, with the number
  each one shows.
\<close>

datatype stage =
    NoRecord
  | HistoricalQuery
  | MensesRecorded int
  | MensesProjected int
  | Delayed int
  | Luteal int
  | Fertile int
  | Follicular int

text \<open>\<^verbatim>\<open>result['stage_detail']\<close>: one message per branch, with its interpolated values.\<close>

datatype detail =
    DetailNoRecord
  | DetailHistorical pydate pydate
  | DetailRecorded pydate pydate
  | DetailProjectedMenses
  | DetailDelayed
  | DetailLuteal int int
  | DetailFertile int
  | DetailFollicular int int

record result =
  last_period_date :: "pydate option"
  next_period_start :: "pydate option"
  avg_cycle :: int
  avg_period_length :: int
  current_stage :: stage
  stage_detail :: detail
  day_since_start :: int
  last_period_end_date :: "pydate option"
  target_date :: pydate
  days_to_next_period :: "int option"

section \<open>calculate\_predictions\<close>

text \<open>\<^verbatim>\<open>sorted(periods, key=lambda x: x['start'], reverse=True)\<close>: a stable sort.\<close>

definition sorted_periods_of :: "period list \<Rightarrow> period list" where
  "sorted_periods_of periods = sort_key (\<lambda>x. - p_start x) periods"

text \<open>
  \<^verbatim>\<open>sum((start_dates[i] - start_dates[i+1]).days for i in range(len(start_dates) - 1))\<close>
\<close>

definition total_cycle_length_of :: "pydate list \<Rightarrow> int" where
  "total_cycle_length_of start_dates =
     sum_list (map (\<lambda>i. start_dates ! i - start_dates ! (i + 1))
                   [0 ..< length start_dates - 1])"

text \<open>\<^verbatim>\<open>sum((r['end'] - r['start']).days + 1 for r in periods)\<close>\<close>

definition total_period_length_of :: "period list \<Rightarrow> int" where
  "total_period_length_of periods =
     sum_list (map (\<lambda>r. (p_end r - p_start r) + 1) periods)"

text \<open>The result dictionary as it is first built, before the emptiness test.\<close>

definition default_result :: "session_state \<Rightarrow> int \<Rightarrow> pydate \<Rightarrow> result" where
  "default_result st avg_cycle_arg target =
     \<lparr> last_period_date = None,
       next_period_start = None,
       avg_cycle = avg_cycle_arg,
       avg_period_length = ss_avg_period_length st,
       current_stage = NoRecord,
       stage_detail = DetailNoRecord,
       day_since_start = 0,
       last_period_end_date = None,
       target_date = target,
       days_to_next_period = None \<rparr>"

text \<open>
  The averages step, for a non-empty history whose sorted copy starts with
  \<open>last_period_record\<close>. It returns the local \<^verbatim>\<open>avg_cycle\<close>, the result dictionary and
  the session state, both updated. Nothing here can raise.
\<close>

definition averages_step ::
  "session_state \<Rightarrow> period list \<Rightarrow> period list \<Rightarrow> period \<Rightarrow> int \<Rightarrow> result
     \<Rightarrow> int \<times> result \<times> session_state" where
  "averages_step st periods sorted_periods last_period_record avg_cycle_arg result0 =
     (let result1 = result0 \<lparr> last_period_date := Some (p_start last_period_record),
                              last_period_end_date := Some (p_end last_period_record) \<rparr>;
          start_dates = map p_start sorted_periods;
          (avg_cycle1, st1, result2) =
            (if length start_dates > 1
             then (let a = py_round_div (total_cycle_length_of start_dates)
                                        (int (length start_dates) - 1)
                   in (a, st \<lparr> ss_avg_cycle := a \<rparr>, result1 \<lparr> avg_cycle := a \<rparr>))
             else (avg_cycle_arg, st, result1));
          (st2, result3) =
            (if length periods > 0
             then (let m = py_round_div (total_period_length_of periods) (int (length periods))
                   in (st1 \<lparr> ss_avg_period_length := m \<rparr>, result2 \<lparr> avg_period_length := m \<rparr>))
             else (st1, result2))
      in (avg_cycle1, result3, st2))"

text \<open>
  The branch for a target date after the last recorded end: the projected cycle. Every
  date addition and the modulo can raise; the first one that does ends the call.
\<close>

definition projected_branch ::
  "pydate \<Rightarrow> pydate \<Rightarrow> int \<Rightarrow> int \<Rightarrow> int \<Rightarrow> result \<Rightarrow> error + result" where
  "projected_branch target last_start avg_cycle_v projected_menses_duration
       day_in_entire_history result0 =
     (if avg_cycle_v = 0 then Inl ZeroDivisionError
      else
        let day_in_projected_cycle = (day_in_entire_history - 1) mod avg_cycle_v + 1;
            cycles_passed = (day_in_entire_history - 1) div avg_cycle_v
        in case plus_days last_start (cycles_passed * avg_cycle_v) of Inl e \<Rightarrow> Inl e
           | Inr projected_cycle_start \<Rightarrow>
        (case plus_days projected_cycle_start avg_cycle_v of Inl e \<Rightarrow> Inl e
           | Inr projected_next_period_start \<Rightarrow>
        (let result1 = result0 \<lparr> days_to_next_period := Some (projected_next_period_start - target),
                                 next_period_start := Some projected_next_period_start \<rparr>
         in case plus_days projected_cycle_start (projected_menses_duration - 1) of Inl e \<Rightarrow> Inl e
           | Inr projected_menses_end \<Rightarrow>
        (case minus_days projected_next_period_start 14 of Inl e \<Rightarrow> Inl e
           | Inr projected_ovulation_date \<Rightarrow>
        (case minus_days projected_ovulation_date 5 of Inl e \<Rightarrow> Inl e
           | Inr projected_fertile_start \<Rightarrow>
        (let projected_fertile_end = projected_ovulation_date
         in if target \<ge> projected_cycle_start \<and> target \<le> projected_menses_end
            then Inr (result1 \<lparr> current_stage := MensesProjected day_in_projected_cycle,
                               stage_detail := DetailProjectedMenses \<rparr>)
            else if target \<ge> projected_next_period_start
            then Inr (result1 \<lparr> current_stage := Delayed day_in_projected_cycle,
                               stage_detail := DetailDelayed,
                               days_to_next_period := Some 0 \<rparr>)
            else if target > projected_fertile_end
            then Inr (result1 \<lparr> current_stage := Luteal day_in_projected_cycle,
                               stage_detail := DetailLuteal day_in_projected_cycle
                                                 (projected_next_period_start - target) \<rparr>)
            else if target \<ge> projected_fertile_start \<and> target \<le> projected_fertile_end
            then Inr (result1 \<lparr> current_stage := Fertile day_in_projected_cycle,
                               stage_detail := DetailFertile day_in_projected_cycle \<rparr>)
            else if target < projected_fertile_start
            then Inr (result1 \<lparr> current_stage := Follicular day_in_projected_cycle,
                               stage_detail := DetailFollicular day_in_projected_cycle
                                                 (projected_fertile_start - target) \<rparr>)
            else Inr result1))))))"

text \<open>The stage decision for the target date, after the averages.\<close>

definition stage_step ::
  "pydate \<Rightarrow> pydate \<Rightarrow> pydate \<Rightarrow> int \<Rightarrow> int \<Rightarrow> result \<Rightarrow> error + result" where
  "stage_step target last_start last_end avg_cycle_v projected_menses_duration result0 =
     (let day_in_entire_history = (target - last_start) + 1;
          result1 = result0 \<lparr> day_since_start := day_in_entire_history \<rparr>
      in if target < last_start
         then (case plus_days last_start avg_cycle_v of Inl e \<Rightarrow> Inl e
               | Inr projected_next_period_start \<Rightarrow>
                   Inr (result1 \<lparr> current_stage := HistoricalQuery,
                                 stage_detail := DetailHistorical target last_start,
                                 next_period_start := Some projected_next_period_start,
                                 days_to_next_period :=
                                   (if projected_next_period_start > target
                                    then Some (projected_next_period_start - target)
                                    else None) \<rparr>))
         else if target \<le> last_end
         then (case plus_days last_start avg_cycle_v of Inl e \<Rightarrow> Inl e
               | Inr projected_next_period_start \<Rightarrow>
                   Inr (result1 \<lparr> current_stage := MensesRecorded day_in_entire_history,
                                 stage_detail := DetailRecorded last_start last_end,
                                 next_period_start := Some projected_next_period_start,
                                 days_to_next_period :=
                                   (if projected_next_period_start > target
                                    then Some (projected_next_period_start - target)
                                    else Some 0) \<rparr>))
         else projected_branch target last_start avg_cycle_v projected_menses_duration
                day_in_entire_history result1)"

text \<open>
  The whole function. It reads and writes \<^verbatim>\<open>st.session_state\<close>, so the session state
  is an argument and is returned; the writes happen before anything can raise, so they
  are kept when the call ends with an exception. \<^verbatim>\<open>sorted_periods[0]\<close> is read after
  the emptiness test on \<^verbatim>\<open>periods\<close>.
\<close>

definition calculate_predictions ::
  "session_state \<Rightarrow> period list \<Rightarrow> int \<Rightarrow> pydate \<Rightarrow> (error + result) \<times> session_state" where
  "calculate_predictions st periods avg_cycle_arg target =
     (let result0 = default_result st avg_cycle_arg target
      in if periods = [] then (Inr result0, st)
         else case sorted_periods_of periods of
           [] \<Rightarrow> (Inl IndexError, st)
         | last_period_record # rest \<Rightarrow>
             (let (avg_cycle_v, result1, st1) =
                    averages_step st periods (last_period_record # rest) last_period_record
                      avg_cycle_arg result0;
                  projected_menses_duration = ss_avg_period_length st1
              in (stage_step target (p_start last_period_record) (p_end last_period_record)
                    avg_cycle_v projected_menses_duration result1, st1)))"

section \<open>Names for what the claims speak about\<close>

text \<open>What a call returns when it does not raise.\<close>

definition returned :: "(error + result) \<times> session_state \<Rightarrow> result option" where
  "returned out = (case fst out of Inl e \<Rightarrow> None | Inr r \<Rightarrow> Some r)"

text \<open>
  The two values the averages step computes for a non-empty history: the local
  \<^verbatim>\<open>avg_cycle\<close> after the first \<^verbatim>\<open>if\<close>, and \<^verbatim>\<open>avg_period_length\<close>.
\<close>

definition effective_avg_cycle :: "period list \<Rightarrow> int \<Rightarrow> int" where
  "effective_avg_cycle periods avg_cycle_arg =
     (if length periods > 1
      then py_round_div (total_cycle_length_of (map p_start (sorted_periods_of periods)))
                        (int (length periods) - 1)
      else avg_cycle_arg)"

definition computed_period_length :: "period list \<Rightarrow> int" where
  "computed_period_length periods =
     py_round_div (total_period_length_of periods) (int (length periods))"

text \<open>
  The session state as the script initialises it on a first run, \<open>today\<close> being
  \<^verbatim>\<open>date.today()\<close>.
\<close>

definition initial_session :: "pydate \<Rightarrow> session_state" where
  "initial_session today =
     \<lparr> ss_periods = [], ss_avg_cycle = 28, ss_avg_period_length = 5, ss_query_date = today \<rparr>"

text \<open>The record of the specification's examples: 2024-01-01 to 2024-01-05.\<close>

definition example_record :: period where
  "example_record = \<lparr> p_start = ymd 2024 1 1, p_end = ymd 2024 1 5 \<rparr>"

text \<open>A seven-day period, 2024-01-01 to 2024-01-07.\<close>

definition week_record :: period where
  "week_record = \<lparr> p_start = ymd 2024 1 1, p_end = ymd 2024 1 7 \<rparr>"

text \<open>A period longer than a 28-day cycle, 2024-01-01 to 2024-01-31.\<close>

definition long_record :: period where
  "long_record = \<lparr> p_start = ymd 2024 1 1, p_end = ymd 2024 1 31 \<rparr>"

text \<open>A period of exactly 28 days, 2024-01-01 to 2024-01-28.\<close>

definition four_week_record :: period where
  "four_week_record = \<lparr> p_start = ymd 2024 1 1, p_end = ymd 2024 1 28 \<rparr>"

text \<open>
  Three periods starting 30 and 31 days apart (2024-01-01, 2024-01-31, 2024-03-02),
  five days each: the mean gap is 30.5.
\<close>

definition half_gap_history :: "period list" where
  "half_gap_history =
     [ \<lparr> p_start = ymd 2024 1 1, p_end = ymd 2024 1 5 \<rparr>,
       \<lparr> p_start = ymd 2024 1 31, p_end = ymd 2024 2 4 \<rparr>,
       \<lparr> p_start = ymd 2024 3 2, p_end = ymd 2024 3 6 \<rparr> ]"

text \<open>Two periods of four and five days, 28 days apart: the mean length is 4.5.\<close>

definition half_length_history :: "period list" where
  "half_length_history =
     [ \<lparr> p_start = ymd 2024 1 1, p_end = ymd 2024 1 4 \<rparr>,
       \<lparr> p_start = ymd 2024 1 29, p_end = ymd 2024 2 2 \<rparr> ]"

subsection \<open>The specification's words for the averages\<close>

text \<open>The start dates of the history, sorted descending.\<close>

definition starts_descending :: "period list \<Rightarrow> pydate list" where
  "starts_descending history = rev (sort (map p_start history))"

text \<open>The day gaps \<open>start[i] - start[i+1]\<close> over all consecutive pairs.\<close>

fun consecutive_gaps :: "int list \<Rightarrow> int list" where
  "consecutive_gaps (a # b # xs) = (a - b) # consecutive_gaps (b # xs)"
| "consecutive_gaps xs = []"

text \<open>The length \<open>(end - start) + 1\<close> of every record.\<close>

definition menses_lengths :: "period list \<Rightarrow> int list" where
  "menses_lengths history = map (\<lambda>p. (p_end p - p_start p) + 1) history"

text \<open>
  \<open>r\<close> is the mean of \<open>xs\<close> rounded to an integer: no integer is nearer to the mean,
  that is \<open>\<bar>r - mean\<bar> \<le> 1/2\<close>, written without fractions.
\<close>

definition is_rounded_mean :: "int \<Rightarrow> int list \<Rightarrow> bool" where
  "is_rounded_mean r xs \<longleftrightarrow> 2 * \<bar>r * int (length xs) - sum_list xs\<bar> \<le> int (length xs)"

text \<open>
  The mean of \<open>xs\<close> is exactly \<open>j + 1/2\<close>.
\<close>

definition mean_is_half_above :: "int list \<Rightarrow> int \<Rightarrow> bool" where
  "mean_is_half_above xs j \<longleftrightarrow> xs \<noteq> [] \<and> 2 * sum_list xs = (2 * j + 1) * int (length xs)"

subsection \<open>The order of the phases\<close>

text \<open>
  The position of a stage in the order projected menses, follicular, fertile, luteal,
  delayed. The three stages outside the projected cycle come last.
\<close>

fun stage_rank :: "stage \<Rightarrow> nat" where
  "stage_rank (MensesProjected d) = 0"
| "stage_rank (Follicular d) = 1"
| "stage_rank (Fertile d) = 2"
| "stage_rank (Luteal d) = 3"
| "stage_rank (Delayed d) = 4"
| "stage_rank (MensesRecorded d) = 5"
| "stage_rank HistoricalQuery = 5"
| "stage_rank NoRecord = 5"

fun is_delayed :: "stage \<Rightarrow> bool" where
  "is_delayed (Delayed d) = True"
| "is_delayed s = False"

text \<open>The day number a stage label shows, if it shows one.\<close>

fun stage_day :: "stage \<Rightarrow> int option" where
  "stage_day NoRecord = None"
| "stage_day HistoricalQuery = None"
| "stage_day (MensesRecorded d) = Some d"
| "stage_day (MensesProjected d) = Some d"
| "stage_day (Delayed d) = Some d"
| "stage_day (Luteal d) = Some d"
| "stage_day (Fertile d) = Some d"
| "stage_day (Follicular d) = Some d"

section \<open>Basic facts about the model\<close>

lemma ymd_2024_1: "ymd 2024 1 d = 738885 + d"
  by (simp add: ymd_def days_before_year_def days_before_month_def)

lemma ymd_2024_2: "ymd 2024 2 d = 738916 + d"
  by (simp add: ymd_def days_before_year_def days_before_month_def days_in_month_def upto.simps)

lemma ymd_2024_3: "ymd 2024 3 d = 738945 + d"
  by (simp add: ymd_def days_before_year_def days_before_month_def days_in_month_def is_leap_def upto.simps)

lemma plus_days_Inr: "plus_days d n = Inr x \<Longrightarrow> x = d + n \<and> MINORD \<le> x \<and> x \<le> MAXORD"
  by (auto simp: plus_days_def timedelta_def date_add_def split: if_splits)

lemma minus_days_Inr: "minus_days d n = Inr x \<Longrightarrow> x = d - n \<and> MINORD \<le> x \<and> x \<le> MAXORD"
  by (auto simp: minus_days_def timedelta_def date_add_def split: if_splits)

lemma plus_days_ok:
  "\<bar>n\<bar> \<le> 999999999 \<Longrightarrow> MINORD \<le> d + n \<Longrightarrow> d + n \<le> MAXORD \<Longrightarrow> plus_days d n = Inr (d + n)"
  by (simp add: plus_days_def timedelta_def date_add_def)

lemma minus_days_ok:
  "\<bar>n\<bar> \<le> 999999999 \<Longrightarrow> MINORD \<le> d - n \<Longrightarrow> d - n \<le> MAXORD \<Longrightarrow> minus_days d n = Inr (d - n)"
  by (simp add: minus_days_def timedelta_def date_add_def)

lemma sorted_periods_of_Nil_iff: "sorted_periods_of h = [] \<longleftrightarrow> h = []"
  by (metis sorted_periods_of_def length_sort list.size(3) length_0_conv)

lemma length_sorted_periods_of: "length (sorted_periods_of h) = length h"
  by (simp add: sorted_periods_of_def)

lemma averages_step_eq:
  assumes "sorted_periods_of h = lr # rest"
  shows "averages_step st h (lr # rest) lr a r0 =
           (effective_avg_cycle h a,
            r0 \<lparr> last_period_date := Some (p_start lr),
                 last_period_end_date := Some (p_end lr),
                 avg_cycle := (if length h > 1 then effective_avg_cycle h a else avg_cycle r0),
                 avg_period_length := computed_period_length h \<rparr>,
            st \<lparr> ss_avg_cycle := (if length h > 1 then effective_avg_cycle h a else ss_avg_cycle st),
                 ss_avg_period_length := computed_period_length h \<rparr>)"
proof -
  have len: "length (lr # rest) = length h"
    using assms length_sorted_periods_of [of h] by simp
  have ne: "h \<noteq> []"
    using assms sorted_periods_of_Nil_iff [of h] by auto
  show ?thesis
    using len ne
    by (simp add: averages_step_def effective_avg_cycle_def computed_period_length_def
        assms Let_def)
qed


lemma calculate_predictions_empty:
  "calculate_predictions st [] a t = (Inr (default_result st a t), st)"
  by (simp add: calculate_predictions_def)

lemma calculate_predictions_nonempty:
  assumes "sorted_periods_of h = lr # rest"
  shows "calculate_predictions st h a t =
           (stage_step t (p_start lr) (p_end lr) (effective_avg_cycle h a)
              (computed_period_length h)
              ((default_result st a t)
                 \<lparr> last_period_date := Some (p_start lr),
                   last_period_end_date := Some (p_end lr),
                   avg_cycle := effective_avg_cycle h a,
                   avg_period_length := computed_period_length h \<rparr>),
            st \<lparr> ss_avg_cycle := (if length h > 1 then effective_avg_cycle h a
                                   else ss_avg_cycle st),
                 ss_avg_period_length := computed_period_length h \<rparr>)"
proof -
  have ne: "h \<noteq> []"
    using assms sorted_periods_of_Nil_iff [of h] by auto
  have eff: "\<not> length h > 1 \<Longrightarrow> effective_avg_cycle h a = a"
    by (simp add: effective_avg_cycle_def)
  have dflt: "avg_cycle (default_result st a t) = a"
    by (simp add: default_result_def)
  show ?thesis
    using ne eff dflt
    by (simp add: calculate_predictions_def assms averages_step_eq [OF assms] Let_def)
qed

lemma projected_branch_Inr:
  assumes "projected_branch t ls c m d r0 = Inr r"
  shows "c \<noteq> 0"
    and "next_period_start r = Some (ls + ((d - 1) div c) * c + c)"
    and "current_stage r =
           (let pcs = ls + ((d - 1) div c) * c; pnps = pcs + c; dy = (d - 1) mod c + 1
            in if pcs \<le> t \<and> t \<le> pcs + (m - 1) then MensesProjected dy
               else if pnps \<le> t then Delayed dy
               else if pnps - 14 < t then Luteal dy
               else if pnps - 19 \<le> t then Fertile dy
               else Follicular dy)"
    and "days_to_next_period r =
           (let pcs = ls + ((d - 1) div c) * c; pnps = pcs + c
            in if \<not> (pcs \<le> t \<and> t \<le> pcs + (m - 1)) \<and> pnps \<le> t then Some 0
               else Some (pnps - t))"
    and "avg_cycle r = avg_cycle r0 \<and> avg_period_length r = avg_period_length r0
         \<and> last_period_date r = last_period_date r0
         \<and> last_period_end_date r = last_period_end_date r0
         \<and> target_date r = target_date r0 \<and> day_since_start r = day_since_start r0"
proof -
  show c: "c \<noteq> 0"
    using assms by (auto simp: projected_branch_def)
  obtain pcs where pcs: "plus_days ls ((d - 1) div c * c) = Inr pcs"
    using assms c by (cases "plus_days ls ((d - 1) div c * c)") (auto simp: projected_branch_def)
  obtain pnps where pnps: "plus_days pcs c = Inr pnps"
    using assms c pcs by (cases "plus_days pcs c") (auto simp: projected_branch_def)
  obtain pme where pme: "plus_days pcs (m - 1) = Inr pme"
    using assms c pcs pnps
    by (cases "plus_days pcs (m - 1)") (auto simp: projected_branch_def)
  obtain pov where pov: "minus_days pnps 14 = Inr pov"
    using assms c pcs pnps pme
    by (cases "minus_days pnps 14") (auto simp: projected_branch_def)
  obtain pfs where pfs: "minus_days pov 5 = Inr pfs"
    using assms c pcs pnps pme pov
    by (cases "minus_days pov 5") (auto simp: projected_branch_def)
  have e1: "pcs = ls + (d - 1) div c * c" using plus_days_Inr [OF pcs] by simp
  have e2: "pnps = pcs + c" using plus_days_Inr [OF pnps] by simp
  have e3: "pme = pcs + (m - 1)" using plus_days_Inr [OF pme] by simp
  have e4: "pov = pnps - 14" using minus_days_Inr [OF pov] by simp
  have e5: "pfs = pov - 5" using minus_days_Inr [OF pfs] by simp
  have r: "r = (let result1 = r0 \<lparr> days_to_next_period := Some (pnps - t),
                                 next_period_start := Some pnps \<rparr>;
                    dy = (d - 1) mod c + 1
                in if t \<ge> pcs \<and> t \<le> pme
            then (result1 \<lparr> current_stage := MensesProjected dy,
                               stage_detail := DetailProjectedMenses \<rparr>)
            else if t \<ge> pnps
            then (result1 \<lparr> current_stage := Delayed dy,
                               stage_detail := DetailDelayed,
                               days_to_next_period := Some 0 \<rparr>)
            else if t > pov
            then (result1 \<lparr> current_stage := Luteal dy,
                               stage_detail := DetailLuteal dy (pnps - t) \<rparr>)
            else if t \<ge> pfs \<and> t \<le> pov
            then (result1 \<lparr> current_stage := Fertile dy,
                               stage_detail := DetailFertile dy \<rparr>)
            else if t < pfs
            then (result1 \<lparr> current_stage := Follicular dy,
                               stage_detail := DetailFollicular dy (pfs - t) \<rparr>)
            else result1)"
    using assms c by (auto simp add: projected_branch_def pcs pnps pme pov pfs Let_def)
  show "next_period_start r = Some (ls + ((d - 1) div c) * c + c)"
    unfolding r Let_def using e1 e2 by simp
  show "current_stage r =
           (let pcs = ls + ((d - 1) div c) * c; pnps = pcs + c; dy = (d - 1) mod c + 1
            in if pcs \<le> t \<and> t \<le> pcs + (m - 1) then MensesProjected dy
               else if pnps \<le> t then Delayed dy
               else if pnps - 14 < t then Luteal dy
               else if pnps - 19 \<le> t then Fertile dy
               else Follicular dy)"
    unfolding r Let_def using e1 e2 e3 e4 e5 by auto
  show "days_to_next_period r =
           (let pcs = ls + ((d - 1) div c) * c; pnps = pcs + c
            in if \<not> (pcs \<le> t \<and> t \<le> pcs + (m - 1)) \<and> pnps \<le> t then Some 0
               else Some (pnps - t))"
    unfolding r Let_def using e1 e2 e3 e4 e5 by auto
  show "avg_cycle r = avg_cycle r0 \<and> avg_period_length r = avg_period_length r0
         \<and> last_period_date r = last_period_date r0
         \<and> last_period_end_date r = last_period_end_date r0
         \<and> target_date r = target_date r0 \<and> day_since_start r = day_since_start r0"
    unfolding r Let_def by simp
qed


lemma stage_step_frame:
  assumes "stage_step t ls le c m r0 = Inr r"
  shows "avg_cycle r = avg_cycle r0 \<and> avg_period_length r = avg_period_length r0
         \<and> last_period_date r = last_period_date r0
         \<and> last_period_end_date r = last_period_end_date r0
         \<and> target_date r = target_date r0"
proof (cases "t \<le> le \<or> t < ls")
  case True
  then show ?thesis
    using assms by (auto simp: stage_step_def Let_def split: if_splits sum.splits)
next
  case False
  then have "projected_branch t ls c m (t - ls + 1) (r0 \<lparr> day_since_start := t - ls + 1 \<rparr>) = Inr r"
    using assms by (simp add: stage_step_def Let_def)
  from projected_branch_Inr(5) [OF this] show ?thesis by simp
qed

lemma stage_step_historical:
  assumes "stage_step t ls le c m r0 = Inr r" and "t < ls"
  shows "current_stage r = HistoricalQuery"
    and "next_period_start r = Some (ls + c)"
    and "days_to_next_period r = (if ls + c - t > 0 then Some (ls + c - t) else None)"
proof -
  obtain n where n: "plus_days ls c = Inr n"
    using assms by (cases "plus_days ls c") (auto simp: stage_step_def Let_def)
  have e: "n = ls + c" using plus_days_Inr [OF n] by simp
  have r: "r = r0 \<lparr> day_since_start := t - ls + 1,
                    current_stage := HistoricalQuery,
                    stage_detail := DetailHistorical t ls,
                    next_period_start := Some n,
                    days_to_next_period := (if n > t then Some (n - t) else None) \<rparr>"
    using assms n by (auto simp: stage_step_def Let_def)
  show "current_stage r = HistoricalQuery" by (simp add: r)
  show "next_period_start r = Some (ls + c)" by (simp add: r e)
  show "days_to_next_period r = (if ls + c - t > 0 then Some (ls + c - t) else None)"
    by (simp add: r e)
qed

lemma stage_step_recorded:
  assumes "stage_step t ls le c m r0 = Inr r" and "ls \<le> t" and "t \<le> le"
  shows "current_stage r = MensesRecorded (t - ls + 1)"
    and "next_period_start r = Some (ls + c)"
    and "days_to_next_period r = Some (max (ls + c - t) 0)"
proof -
  obtain n where n: "plus_days ls c = Inr n"
    using assms by (cases "plus_days ls c") (auto simp: stage_step_def Let_def)
  have e: "n = ls + c" using plus_days_Inr [OF n] by simp
  have r: "r = r0 \<lparr> day_since_start := t - ls + 1,
                    current_stage := MensesRecorded (t - ls + 1),
                    stage_detail := DetailRecorded ls le,
                    next_period_start := Some n,
                    days_to_next_period := (if n > t then Some (n - t) else Some 0) \<rparr>"
    using assms n by (auto simp: stage_step_def Let_def)
  show "current_stage r = MensesRecorded (t - ls + 1)" by (simp add: r)
  show "next_period_start r = Some (ls + c)" by (simp add: r e)
  show "days_to_next_period r = Some (max (ls + c - t) 0)"
    by (simp add: r e max_def)
qed

lemma stage_step_projected:
  assumes "stage_step t ls le c m r0 = Inr r" and "ls \<le> t" and "le < t"
  shows "projected_branch t ls c m (t - ls + 1) (r0 \<lparr> day_since_start := t - ls + 1 \<rparr>) = Inr r"
  using assms by (simp add: stage_step_def Let_def)

lemma calculate_predictions_Inr:
  assumes "calculate_predictions st h a t = (Inr r, st')"
    and "last_period_date r = Some ls" and "last_period_end_date r = Some le"
  shows "h \<noteq> []"
    and "avg_cycle r = effective_avg_cycle h a"
    and "avg_period_length r = computed_period_length h"
    and "\<exists>r0. stage_step t ls le (effective_avg_cycle h a) (computed_period_length h) r0 = Inr r"
    and "\<exists>rest. sorted_periods_of h = \<lparr> p_start = ls, p_end = le \<rparr> # rest"
proof -
  show ne: "h \<noteq> []"
    using assms by (auto simp: calculate_predictions_empty default_result_def)
  then obtain lr rest where srt: "sorted_periods_of h = lr # rest"
    using sorted_periods_of_Nil_iff [of h] by (cases "sorted_periods_of h") auto
  let ?r1 = "(default_result st a t)
                 \<lparr> last_period_date := Some (p_start lr),
                   last_period_end_date := Some (p_end lr),
                   avg_cycle := effective_avg_cycle h a,
                   avg_period_length := computed_period_length h \<rparr>"
  have step: "stage_step t (p_start lr) (p_end lr) (effective_avg_cycle h a)
                (computed_period_length h) ?r1 = Inr r"
    using assms(1) calculate_predictions_nonempty [OF srt, of st a t] by simp
  from stage_step_frame [OF step] have fr:
    "avg_cycle r = effective_avg_cycle h a" "avg_period_length r = computed_period_length h"
    "last_period_date r = Some (p_start lr)" "last_period_end_date r = Some (p_end lr)"
    by simp_all
  show "avg_cycle r = effective_avg_cycle h a" by (rule fr(1))
  show "avg_period_length r = computed_period_length h" by (rule fr(2))
  have ls: "p_start lr = ls" and le: "p_end lr = le"
    using fr(3,4) assms(2,3) by simp_all
  show "\<exists>r0. stage_step t ls le (effective_avg_cycle h a) (computed_period_length h) r0 = Inr r"
    using step ls le by blast
  have "lr = \<lparr> p_start = ls, p_end = le \<rparr>" using ls le by simp
  then show "\<exists>rest. sorted_periods_of h = \<lparr> p_start = ls, p_end = le \<rparr> # rest"
    using srt by blast
qed

subsection \<open>The calls of the examples, evaluated\<close>

lemma singleton_sorted: "sorted_periods_of [p] = [p]"
  by (simp add: sorted_periods_of_def)

lemma singleton_effective: "effective_avg_cycle [p] a = a"
  by (simp add: effective_avg_cycle_def)

lemma example_length: "computed_period_length [example_record] = 5"
  by (simp add: computed_period_length_def total_period_length_of_def example_record_def
      ymd_2024_1 py_round_div_def)

lemma example_call:
  "calculate_predictions st [example_record] 28 t =
     (stage_step t 738886 738890 28 5
        ((default_result st 28 t)
           \<lparr> last_period_date := Some 738886, last_period_end_date := Some 738890,
             avg_cycle := 28, avg_period_length := 5 \<rparr>),
      st \<lparr> ss_avg_period_length := 5 \<rparr>)"
  using calculate_predictions_nonempty [OF singleton_sorted [of example_record],
    where st = st and a = 28 and t = t]
  by (simp add: singleton_effective example_length) (simp add: example_record_def ymd_2024_1)

lemmas date_arith = stage_step_def projected_branch_def Let_def plus_days_def minus_days_def
       timedelta_def date_add_def MINORD_def MAXORD_def default_result_def

lemma example_jan_10:
  "calculate_predictions st [example_record] 28 (ymd 2024 1 10) =
     (Inr \<lparr> last_period_date = Some 738886, next_period_start = Some 738914,
            avg_cycle = 28, avg_period_length = 5, current_stage = Fertile 10,
            stage_detail = DetailFertile 10, day_since_start = 10,
            last_period_end_date = Some 738890, target_date = 738895,
            days_to_next_period = Some 19 \<rparr>,
      st \<lparr> ss_avg_period_length := 5 \<rparr>)"
  by (simp add: example_call ymd_2024_1) (simp add: date_arith)

lemma example_jan_28:
  "calculate_predictions st [example_record] 28 (ymd 2024 1 28) =
     (Inr \<lparr> last_period_date = Some 738886, next_period_start = Some 738914,
            avg_cycle = 28, avg_period_length = 5, current_stage = Luteal 28,
            stage_detail = DetailLuteal 28 1, day_since_start = 28,
            last_period_end_date = Some 738890, target_date = 738913,
            days_to_next_period = Some 1 \<rparr>,
      st \<lparr> ss_avg_period_length := 5 \<rparr>)"
  by (simp add: example_call ymd_2024_1) (simp add: date_arith)

lemma example_jan_29:
  "calculate_predictions st [example_record] 28 (ymd 2024 1 29) =
     (Inr \<lparr> last_period_date = Some 738886, next_period_start = Some 738942,
            avg_cycle = 28, avg_period_length = 5, current_stage = MensesProjected 1,
            stage_detail = DetailProjectedMenses, day_since_start = 29,
            last_period_end_date = Some 738890, target_date = 738914,
            days_to_next_period = Some 28 \<rparr>,
      st \<lparr> ss_avg_period_length := 5 \<rparr>)"
  by (simp add: example_call ymd_2024_1) (simp add: date_arith)

lemma example_jan_3:
  "calculate_predictions st [example_record] 28 (ymd 2024 1 3) =
     (Inr \<lparr> last_period_date = Some 738886, next_period_start = Some 738914,
            avg_cycle = 28, avg_period_length = 5, current_stage = MensesRecorded 3,
            stage_detail = DetailRecorded 738886 738890, day_since_start = 3,
            last_period_end_date = Some 738890, target_date = 738888,
            days_to_next_period = Some 26 \<rparr>,
      st \<lparr> ss_avg_period_length := 5 \<rparr>)"
  by (simp add: example_call ymd_2024_1) (simp add: date_arith)

subsection \<open>The projected cycle when the average cycle is positive\<close>

lemma floor_cycle_bounds:
  fixes x c :: int
  assumes "1 \<le> c"
  shows "x div c * c \<le> x" and "x < x div c * c + c"
    and "0 \<le> x mod c" and "x mod c < c"
proof -
  have c: "0 < c" using assms by simp
  have eq: "x div c * c + x mod c = x" by simp
  show "0 \<le> x mod c" using c by simp
  show "x mod c < c" using c by simp
  show "x div c * c \<le> x" using eq pos_mod_sign [OF c, of x] by linarith
  show "x < x div c * c + c" using eq pos_mod_bound [OF c, of x] by linarith
qed

lemma stage_step_projected_pos:
  assumes "stage_step t ls le c m r0 = Inr r" and "ls \<le> t" and "le < t" and "1 \<le> c"
  shows "current_stage r =
           (let pcs = ls + (t - ls) div c * c; dy = (t - ls) mod c + 1
            in if t \<le> pcs + (m - 1) then MensesProjected dy
               else if pcs + c - 14 < t then Luteal dy
               else if pcs + c - 19 \<le> t then Fertile dy
               else Follicular dy)"
    and "next_period_start r = Some (ls + (t - ls) div c * c + c)"
    and "days_to_next_period r = Some (ls + (t - ls) div c * c + c - t)"
proof -
  have pb: "projected_branch t ls c m (t - ls + 1) (r0 \<lparr> day_since_start := t - ls + 1 \<rparr>) = Inr r"
    by (rule stage_step_projected [OF assms(1-3)])
  have b: "ls + (t - ls) div c * c \<le> t" "t < ls + (t - ls) div c * c + c"
    using floor_cycle_bounds(1,2) [OF assms(4), of "t - ls"] by linarith+
  show "current_stage r =
           (let pcs = ls + (t - ls) div c * c; dy = (t - ls) mod c + 1
            in if t \<le> pcs + (m - 1) then MensesProjected dy
               else if pcs + c - 14 < t then Luteal dy
               else if pcs + c - 19 \<le> t then Fertile dy
               else Follicular dy)"
    using projected_branch_Inr(3) [OF pb] b by (simp add: Let_def)
  show "next_period_start r = Some (ls + (t - ls) div c * c + c)"
    using projected_branch_Inr(2) [OF pb] by simp
  show "days_to_next_period r = Some (ls + (t - ls) div c * c + c - t)"
    using projected_branch_Inr(4) [OF pb] b by (simp add: Let_def)
qed

lemma calculate_predictions_Inr_last:
  assumes "calculate_predictions st h a t = (Inr r, st')" and "h \<noteq> []"
  shows "\<exists>ls le. last_period_date r = Some ls \<and> last_period_end_date r = Some le"
proof -
  obtain lr rest where srt: "sorted_periods_of h = lr # rest"
    using assms(2) sorted_periods_of_Nil_iff [of h] by (cases "sorted_periods_of h") auto
  have "stage_step t (p_start lr) (p_end lr) (effective_avg_cycle h a)
          (computed_period_length h)
          ((default_result st a t)
             \<lparr> last_period_date := Some (p_start lr),
               last_period_end_date := Some (p_end lr),
               avg_cycle := effective_avg_cycle h a,
               avg_period_length := computed_period_length h \<rparr>) = Inr r"
    using assms(1) calculate_predictions_nonempty [OF srt, of st a t] by simp
  from stage_step_frame [OF this] show ?thesis by simp
qed

lemma ymd_2023_12: "ymd 2023 12 d = 738854 + d"
  by (simp add: ymd_def days_before_year_def days_before_month_def days_in_month_def is_leap_def upto.simps)

lemma example_dec_25:
  "calculate_predictions st [example_record] 28 (ymd 2023 12 25) =
     (Inr \<lparr> last_period_date = Some 738886, next_period_start = Some 738914,
            avg_cycle = 28, avg_period_length = 5, current_stage = HistoricalQuery,
            stage_detail = DetailHistorical 738879 738886, day_since_start = -6,
            last_period_end_date = Some 738890, target_date = 738879,
            days_to_next_period = Some 35 \<rparr>,
      st \<lparr> ss_avg_period_length := 5 \<rparr>)"
  by (simp add: example_call ymd_2023_12) (simp add: date_arith)

lemma example_jan_20:
  "calculate_predictions st [example_record] 28 (ymd 2024 1 20) =
     (Inr \<lparr> last_period_date = Some 738886, next_period_start = Some 738914,
            avg_cycle = 28, avg_period_length = 5, current_stage = Luteal 20,
            stage_detail = DetailLuteal 20 9, day_since_start = 20,
            last_period_end_date = Some 738890, target_date = 738905,
            days_to_next_period = Some 9 \<rparr>,
      st \<lparr> ss_avg_period_length := 5 \<rparr>)"
  by (simp add: example_call ymd_2024_1) (simp add: date_arith)

subsection \<open>Rounding, gaps and the order of the records\<close>

lemma py_round_div_nearest:
  assumes "0 < b"
  shows "2 * \<bar>py_round_div a b * b - a\<bar> \<le> b"
proof -
  define q where "q = a div b"
  define r where "r = a mod b"
  have lo: "0 \<le> r" and hi: "r < b" using assms by (simp_all add: r_def)
  have "a = q * b + r" by (simp add: q_def r_def)
  then have dn: "q * b - a = - r" and up: "(q + 1) * b - a = b - r"
    by (simp_all add: algebra_simps)
  have "(py_round_div a b = q \<and> 2 * r \<le> b) \<or> (py_round_div a b = q + 1 \<and> b \<le> 2 * r)"
    unfolding py_round_div_def Let_def q_def r_def
    by (cases "2 * (a mod b) < b"; cases "b < 2 * (a mod b)"; cases "even (a div b)"; simp)
  then show ?thesis
  proof
    assume "py_round_div a b = q \<and> 2 * r \<le> b"
    then show ?thesis using dn lo by simp
  next
    assume "py_round_div a b = q + 1 \<and> b \<le> 2 * r"
    then show ?thesis using up hi by simp
  qed
qed

lemma py_round_div_tie:
  assumes "0 < b" and "2 * a = (2 * j + 1) * b"
  shows "py_round_div a b = (if even j then j else j + 1)"
proof -
  have "even ((2 * j + 1) * b)" using assms(2) by (metis dvd_triv_left)
  then have "even b" by simp
  then obtain k where k: "b = 2 * k" by (auto elim: evenE)
  have kb: "0 \<le> k" "k < b" "2 * k = b" using assms(1) k by simp_all
  have a: "a = b * j + k" using assms(2) k by (simp add: algebra_simps)
  have q: "a div b = j" by (rule int_div_pos_eq [OF a kb(1,2)])
  have r: "a mod b = k" by (rule int_mod_pos_eq [OF a kb(1,2)])
  show ?thesis
    by (simp add: py_round_div_def Let_def q r kb(3))
qed

lemma total_cycle_length_of_Cons:
  "total_cycle_length_of (a # b # xs) = (a - b) + total_cycle_length_of (b # xs)"
proof -
  have "[0 ..< Suc (length xs)] = 0 # map Suc [0 ..< length xs]"
    by (simp add: upt_conv_Cons map_Suc_upt del: upt_Suc)
  then show ?thesis
    by (simp add: total_cycle_length_of_def comp_def del: upt_Suc)
qed

lemma total_cycle_length_of_gaps:
  "total_cycle_length_of xs = sum_list (consecutive_gaps xs)"
  by (induction xs rule: consecutive_gaps.induct)
     (simp add: total_cycle_length_of_Cons, simp_all add: total_cycle_length_of_def)

lemma length_consecutive_gaps: "length (consecutive_gaps xs) = length xs - 1"
  by (induction xs rule: consecutive_gaps.induct) simp_all

lemma sorted_starts_descending:
  "map p_start (sorted_periods_of h) = starts_descending h"
proof -
  let ?g = "\<lambda>x. - p_start x"
  let ?L = "map p_start (sorted_periods_of h)"
  have "sorted (map ?g (sort_key ?g h))" by (rule sorted_sort_key)
  then have neg: "sorted (map uminus ?L)"
    by (simp add: sorted_periods_of_def comp_def)
  have "sorted (rev ?L)"
    unfolding sorted_rev_iff_nth_mono
  proof (intro allI impI)
    fix i j assume "i \<le> j" "j < length ?L"
    then have "map uminus ?L ! i \<le> map uminus ?L ! j"
      using neg by (simp add: sorted_iff_nth_mono)
    then show "?L ! j \<le> ?L ! i"
      using \<open>i \<le> j\<close> \<open>j < length ?L\<close> by simp
  qed
  moreover have "mset (rev ?L) = mset (map p_start h)"
    by (simp add: sorted_periods_of_def)
  ultimately have "sort (map p_start h) = rev ?L"
    by (rule properties_for_sort [rotated])
  then show ?thesis
    by (simp add: starts_descending_def)
qed

lemma sorted_periods_of_permutation:
  assumes "mset h' = mset h" and "distinct (map p_start h)"
  shows "sorted_periods_of h' = sorted_periods_of h"
proof -
  let ?g = "\<lambda>x. - p_start x"
  have "inj_on p_start (set h)" using assms(2) by (simp add: distinct_map)
  then have "inj_on ?g (set h)" by (auto simp: inj_on_def)
  moreover have "set h' = set h" using assms(1) by (rule mset_eq_setD)
  ultimately have inj: "inj_on ?g (set h')" by simp
  have "mset h' = mset (sort_key ?g h)" using assms(1) by simp
  from sort_key_inj_key_eq [OF this inj sorted_sort_key]
  show ?thesis by (simp add: sorted_periods_of_def)
qed

lemma total_period_length_of_permutation:
  assumes "mset h' = mset h"
  shows "total_period_length_of h' = total_period_length_of h"
proof -
  have "mset (map (\<lambda>r. (p_end r - p_start r) + 1) h') = mset (map (\<lambda>r. (p_end r - p_start r) + 1) h)"
    using assms by (metis mset_map)
  then have "sum_mset (mset (map (\<lambda>r. (p_end r - p_start r) + 1) h'))
             = sum_mset (mset (map (\<lambda>r. (p_end r - p_start r) + 1) h))" by simp
  then show ?thesis
    by (simp only: sum_mset_sum_list total_period_length_of_def)
qed

lemma calculate_predictions_permutation:
  assumes "mset h' = mset h" and "distinct (map p_start h)"
  shows "calculate_predictions st h' a t = calculate_predictions st h a t"
proof (cases "h = []")
  case True
  then show ?thesis using assms(1) by simp
next
  case False
  then obtain lr rest where srt: "sorted_periods_of h = lr # rest"
    using sorted_periods_of_Nil_iff [of h] by (cases "sorted_periods_of h") auto
  have srt': "sorted_periods_of h' = lr # rest"
    using sorted_periods_of_permutation [OF assms] srt by simp
  have len: "length h' = length h" using assms(1) by (rule mset_eq_length)
  have c: "effective_avg_cycle h' a = effective_avg_cycle h a"
    by (simp add: effective_avg_cycle_def len sorted_periods_of_permutation [OF assms])
  have m: "computed_period_length h' = computed_period_length h"
    by (simp add: computed_period_length_def len total_period_length_of_permutation [OF assms(1)])
  show ?thesis
    by (simp add: calculate_predictions_nonempty [OF srt] calculate_predictions_nonempty [OF srt']
        c m len)
qed

lemma effective_avg_cycle_gaps:
  assumes "2 \<le> length h"
  shows "effective_avg_cycle h a =
           py_round_div (sum_list (consecutive_gaps (starts_descending h)))
             (int (length (consecutive_gaps (starts_descending h))))"
proof -
  have len: "length (starts_descending h) = length h"
    by (simp add: starts_descending_def)
  have "int (length (consecutive_gaps (starts_descending h))) = int (length h) - 1"
    using assms by (simp add: length_consecutive_gaps len)
  then show ?thesis
    using assms
    by (simp add: effective_avg_cycle_def sorted_starts_descending total_cycle_length_of_gaps)
qed

lemma computed_period_length_lengths:
  "computed_period_length h =
     py_round_div (sum_list (menses_lengths h)) (int (length (menses_lengths h)))"
  by (simp add: computed_period_length_def total_period_length_of_def menses_lengths_def)

lemma is_rounded_mean_py_round_div:
  assumes "xs \<noteq> []"
  shows "is_rounded_mean (py_round_div (sum_list xs) (int (length xs))) xs"
proof -
  have "0 < int (length xs)" using assms by simp
  from py_round_div_nearest [OF this, of "sum_list xs"]
  show ?thesis by (simp add: is_rounded_mean_def)
qed

lemma py_round_div_half_above:
  assumes "mean_is_half_above xs j"
  shows "py_round_div (sum_list xs) (int (length xs)) = (if even j then j else j + 1)"
proof -
  have "0 < int (length xs)" and "2 * sum_list xs = (2 * j + 1) * int (length xs)"
    using assms by (simp_all add: mean_is_half_above_def)
  then show ?thesis by (rule py_round_div_tie)
qed

lemma gaps_nonempty: "2 \<le> length h \<Longrightarrow> consecutive_gaps (starts_descending h) \<noteq> []"
proof -
  assume "2 \<le> length h"
  then have "length (consecutive_gaps (starts_descending h)) \<noteq> 0"
    by (simp add: length_consecutive_gaps starts_descending_def)
  then show ?thesis by auto
qed

subsection \<open>More calls, evaluated\<close>

lemma example_jan_3_prev_30:
  "calculate_predictions st [example_record] 30 (ymd 2024 1 3) =
     (Inr \<lparr> last_period_date = Some 738886, next_period_start = Some 738916,
            avg_cycle = 30, avg_period_length = 5, current_stage = MensesRecorded 3,
            stage_detail = DetailRecorded 738886 738890, day_since_start = 3,
            last_period_end_date = Some 738890, target_date = 738888,
            days_to_next_period = Some 28 \<rparr>,
      st \<lparr> ss_avg_period_length := 5 \<rparr>)"
  using calculate_predictions_nonempty [OF singleton_sorted [of example_record],
    where st = st and a = 30 and t = "ymd 2024 1 3"]
  by (simp add: singleton_effective example_length)
     (simp add: example_record_def ymd_2024_1 date_arith)

lemma week_call_session:
  "snd (calculate_predictions st [week_record] a t) = st \<lparr> ss_avg_period_length := 7 \<rparr>"
proof -
  have "computed_period_length [week_record] = 7"
    by (simp add: computed_period_length_def total_period_length_of_def week_record_def
        ymd_2024_1 py_round_div_def)
  then show ?thesis
    using calculate_predictions_nonempty [OF singleton_sorted [of week_record],
      where st = st and a = a and t = t]
    by simp
qed

lemma half_gap_sorted:
  "sorted_periods_of half_gap_history =
     [ \<lparr> p_start = 738947, p_end = 738951 \<rparr>,
       \<lparr> p_start = 738916, p_end = 738920 \<rparr>,
       \<lparr> p_start = 738886, p_end = 738890 \<rparr> ]"
  by (simp add: sorted_periods_of_def half_gap_history_def ymd_2024_1 ymd_2024_2 ymd_2024_3)

lemma half_gap_starts: "starts_descending half_gap_history = [738947, 738916, 738886]"
  using sorted_starts_descending [of half_gap_history] by (simp add: half_gap_sorted)

lemma half_gap_effective: "effective_avg_cycle half_gap_history a = 30"
  by (simp add: effective_avg_cycle_def half_gap_sorted total_cycle_length_of_gaps
      py_round_div_def)
     (simp add: half_gap_history_def)

lemma half_gap_length: "computed_period_length half_gap_history = 5"
  by (simp add: computed_period_length_def total_period_length_of_def half_gap_history_def
      ymd_2024_1 ymd_2024_2 ymd_2024_3 py_round_div_def)

lemma half_gap_mar_20:
  "calculate_predictions st half_gap_history a (ymd 2024 3 20) =
     (Inr \<lparr> last_period_date = Some 738947, next_period_start = Some 738977,
            avg_cycle = 30, avg_period_length = 5, current_stage = Luteal 19,
            stage_detail = DetailLuteal 19 12, day_since_start = 19,
            last_period_end_date = Some 738951, target_date = 738965,
            days_to_next_period = Some 12 \<rparr>,
      st \<lparr> ss_avg_cycle := 30, ss_avg_period_length := 5 \<rparr>)"
  using calculate_predictions_nonempty [OF half_gap_sorted,
    where st = st and a = a and t = "ymd 2024 3 20"]
  by (simp add: half_gap_effective half_gap_length)
     (simp add: half_gap_history_def ymd_2024_3 date_arith)

lemma half_length_sorted:
  "sorted_periods_of half_length_history =
     [ \<lparr> p_start = 738914, p_end = 738918 \<rparr>,
       \<lparr> p_start = 738886, p_end = 738889 \<rparr> ]"
  by (simp add: sorted_periods_of_def half_length_history_def ymd_2024_1 ymd_2024_2)

lemma half_length_effective: "effective_avg_cycle half_length_history a = 28"
  by (simp add: effective_avg_cycle_def half_length_sorted total_cycle_length_of_gaps
      py_round_div_def)
     (simp add: half_length_history_def)

lemma half_length_length: "computed_period_length half_length_history = 4"
  by (simp add: computed_period_length_def total_period_length_of_def half_length_history_def
      ymd_2024_1 ymd_2024_2 py_round_div_def)

lemma half_length_feb_10:
  "calculate_predictions st half_length_history a (ymd 2024 2 10) =
     (Inr \<lparr> last_period_date = Some 738914, next_period_start = Some 738942,
            avg_cycle = 28, avg_period_length = 4, current_stage = Fertile 13,
            stage_detail = DetailFertile 13, day_since_start = 13,
            last_period_end_date = Some 738918, target_date = 738926,
            days_to_next_period = Some 16 \<rparr>,
      st \<lparr> ss_avg_cycle := 28, ss_avg_period_length := 4 \<rparr>)"
  using calculate_predictions_nonempty [OF half_length_sorted,
    where st = st and a = a and t = "ymd 2024 2 10"]
  by (simp add: half_length_effective half_length_length)
     (simp add: half_length_history_def ymd_2024_2 date_arith)

subsection \<open>The latest record\<close>

lemma ymd_2024_4: "ymd 2024 4 d = 738976 + d"
  by (simp add: ymd_def days_before_year_def days_before_month_def days_in_month_def is_leap_def upto.simps)

lemma sorted_periods_of_head:
  assumes "sorted_periods_of h = lr # rest"
  shows "lr \<in> set h" and "\<forall>p \<in> set h. p_start p \<le> p_start lr"
proof -
  let ?g = "\<lambda>x. - p_start x"
  have st: "set (lr # rest) = set h"
    using assms by (metis sorted_periods_of_def set_sort)
  then show "lr \<in> set h" by auto
  have eq: "sort_key ?g h = lr # rest"
    using assms by (simp add: sorted_periods_of_def)
  have "sorted (map ?g (lr # rest))"
    using sorted_sort_key [of ?g h] by (simp only: eq)
  then have "\<forall>p \<in> set rest. ?g lr \<le> ?g p" by simp
  then have "\<forall>p \<in> set (lr # rest). p_start p \<le> p_start lr" by auto
  then show "\<forall>p \<in> set h. p_start p \<le> p_start lr" by (simp only: st)
qed

lemma calculate_predictions_latest:
  assumes "h \<noteq> []"
  shows "\<exists>ls le. \<lparr> p_start = ls, p_end = le \<rparr> \<in> set h \<and> (\<forall>p \<in> set h. p_start p \<le> ls)
           \<and> (\<forall>s t r s'. calculate_predictions s h a t = (Inr r, s') \<longrightarrow>
                 last_period_date r = Some ls \<and> last_period_end_date r = Some le
                 \<and> avg_cycle r = effective_avg_cycle h a
                 \<and> avg_period_length r = computed_period_length h
                 \<and> (\<exists>q. stage_step t ls le (effective_avg_cycle h a)
                            (computed_period_length h) q = Inr r))"
proof -
  obtain lr rest where srt: "sorted_periods_of h = lr # rest"
    using assms sorted_periods_of_Nil_iff [of h] by (cases "sorted_periods_of h") auto
  have lr: "\<lparr> p_start = p_start lr, p_end = p_end lr \<rparr> = lr" by simp
  have mem: "\<lparr> p_start = p_start lr, p_end = p_end lr \<rparr> \<in> set h"
    using sorted_periods_of_head(1) [OF srt] by (simp only: lr)
  have calls: "last_period_date r = Some (p_start lr) \<and> last_period_end_date r = Some (p_end lr)
                 \<and> avg_cycle r = effective_avg_cycle h a
                 \<and> avg_period_length r = computed_period_length h
                 \<and> (\<exists>q. stage_step t (p_start lr) (p_end lr) (effective_avg_cycle h a)
                            (computed_period_length h) q = Inr r)"
    if "calculate_predictions s h a t = (Inr r, s')" for s t r s'
  proof -
    let ?q = "(default_result s a t)
                 \<lparr> last_period_date := Some (p_start lr),
                   last_period_end_date := Some (p_end lr),
                   avg_cycle := effective_avg_cycle h a,
                   avg_period_length := computed_period_length h \<rparr>"
    have step: "stage_step t (p_start lr) (p_end lr) (effective_avg_cycle h a)
                  (computed_period_length h) ?q = Inr r"
      using that calculate_predictions_nonempty [OF srt, of s a t] by simp
    from stage_step_frame [OF step] step show ?thesis by auto
  qed
  show ?thesis
    using mem sorted_periods_of_head(2) [OF srt] calls by blast
qed

subsection \<open>Calls around the latest record, evaluated\<close>

lemma half_gap_call:
  "calculate_predictions st half_gap_history a t =
     (stage_step t 738947 738951 30 5
        ((default_result st a t)
           \<lparr> last_period_date := Some 738947, last_period_end_date := Some 738951,
             avg_cycle := 30, avg_period_length := 5 \<rparr>),
      st \<lparr> ss_avg_cycle := 30, ss_avg_period_length := 5 \<rparr>)"
  using calculate_predictions_nonempty [OF half_gap_sorted, where st = st and a = a and t = t]
  by (simp add: half_gap_effective half_gap_length) (simp add: half_gap_history_def)

lemma half_gap_mar_4:
  "calculate_predictions st half_gap_history a (ymd 2024 3 4) =
     (Inr \<lparr> last_period_date = Some 738947, next_period_start = Some 738977,
            avg_cycle = 30, avg_period_length = 5, current_stage = MensesRecorded 3,
            stage_detail = DetailRecorded 738947 738951, day_since_start = 3,
            last_period_end_date = Some 738951, target_date = 738949,
            days_to_next_period = Some 28 \<rparr>,
      st \<lparr> ss_avg_cycle := 30, ss_avg_period_length := 5 \<rparr>)"
  by (simp add: half_gap_call ymd_2024_3) (simp add: date_arith)

lemma half_gap_feb_10:
  "calculate_predictions st half_gap_history a (ymd 2024 2 10) =
     (Inr \<lparr> last_period_date = Some 738947, next_period_start = Some 738977,
            avg_cycle = 30, avg_period_length = 5, current_stage = HistoricalQuery,
            stage_detail = DetailHistorical 738926 738947, day_since_start = -20,
            last_period_end_date = Some 738951, target_date = 738926,
            days_to_next_period = Some 51 \<rparr>,
      st \<lparr> ss_avg_cycle := 30, ss_avg_period_length := 5 \<rparr>)"
  by (simp add: half_gap_call ymd_2024_2) (simp add: date_arith)

lemma half_gap_mar_10:
  "calculate_predictions st half_gap_history a (ymd 2024 3 10) =
     (Inr \<lparr> last_period_date = Some 738947, next_period_start = Some 738977,
            avg_cycle = 30, avg_period_length = 5, current_stage = Follicular 9,
            stage_detail = DetailFollicular 9 3, day_since_start = 9,
            last_period_end_date = Some 738951, target_date = 738955,
            days_to_next_period = Some 22 \<rparr>,
      st \<lparr> ss_avg_cycle := 30, ss_avg_period_length := 5 \<rparr>)"
  by (simp add: half_gap_call ymd_2024_3) (simp add: date_arith)

lemma half_gap_apr_1:
  "calculate_predictions st half_gap_history a (ymd 2024 4 1) =
     (Inr \<lparr> last_period_date = Some 738947, next_period_start = Some 739007,
            avg_cycle = 30, avg_period_length = 5, current_stage = MensesProjected 1,
            stage_detail = DetailProjectedMenses, day_since_start = 31,
            last_period_end_date = Some 738951, target_date = 738977,
            days_to_next_period = Some 30 \<rparr>,
      st \<lparr> ss_avg_cycle := 30, ss_avg_period_length := 5 \<rparr>)"
  by (simp add: half_gap_call ymd_2024_4) (simp add: date_arith)

lemma long_length: "computed_period_length [long_record] = 31"
  by (simp add: computed_period_length_def total_period_length_of_def long_record_def
      ymd_2024_1 py_round_div_def)

lemma long_jan_30:
  "calculate_predictions st [long_record] 28 (ymd 2024 1 30) =
     (Inr \<lparr> last_period_date = Some 738886, next_period_start = Some 738914,
            avg_cycle = 28, avg_period_length = 31, current_stage = MensesRecorded 30,
            stage_detail = DetailRecorded 738886 738916, day_since_start = 30,
            last_period_end_date = Some 738916, target_date = 738915,
            days_to_next_period = Some 0 \<rparr>,
      st \<lparr> ss_avg_period_length := 31 \<rparr>)"
  using calculate_predictions_nonempty [OF singleton_sorted [of long_record],
    where st = st and a = 28 and t = "ymd 2024 1 30"]
  by (simp add: singleton_effective long_length)
     (simp add: long_record_def ymd_2024_1 date_arith)

lemma example_dec_25_prev_negative:
  "calculate_predictions st [example_record] (- 40) (ymd 2023 12 25) =
     (Inr \<lparr> last_period_date = Some 738886, next_period_start = Some 738846,
            avg_cycle = - 40, avg_period_length = 5, current_stage = HistoricalQuery,
            stage_detail = DetailHistorical 738879 738886, day_since_start = -6,
            last_period_end_date = Some 738890, target_date = 738879,
            days_to_next_period = None \<rparr>,
      st \<lparr> ss_avg_period_length := 5 \<rparr>)"
  using calculate_predictions_nonempty [OF singleton_sorted [of example_record],
    where st = st and a = "- 40" and t = "ymd 2023 12 25"]
  by (simp add: singleton_effective example_length)
     (simp add: example_record_def ymd_2024_1 ymd_2023_12 date_arith)

lemma four_week_length: "computed_period_length [four_week_record] = 28"
  by (simp add: computed_period_length_def total_period_length_of_def four_week_record_def
      ymd_2024_1 py_round_div_def)

lemma four_week_jan_29:
  "calculate_predictions st [four_week_record] 28 (ymd 2024 1 29) =
     (Inr \<lparr> last_period_date = Some 738886, next_period_start = Some 738942,
            avg_cycle = 28, avg_period_length = 28, current_stage = MensesProjected 1,
            stage_detail = DetailProjectedMenses, day_since_start = 29,
            last_period_end_date = Some 738913, target_date = 738914,
            days_to_next_period = Some 28 \<rparr>,
      st \<lparr> ss_avg_period_length := 28 \<rparr>)"
  using calculate_predictions_nonempty [OF singleton_sorted [of four_week_record],
    where st = st and a = 28 and t = "ymd 2024 1 29"]
  by (simp add: singleton_effective four_week_length)
     (simp add: four_week_record_def ymd_2024_1 date_arith)

lemma long_jan_29:
  "calculate_predictions st [long_record] 28 (ymd 2024 1 29) =
     (Inr \<lparr> last_period_date = Some 738886, next_period_start = Some 738914,
            avg_cycle = 28, avg_period_length = 31, current_stage = MensesRecorded 29,
            stage_detail = DetailRecorded 738886 738916, day_since_start = 29,
            last_period_end_date = Some 738916, target_date = 738914,
            days_to_next_period = Some 0 \<rparr>,
      st \<lparr> ss_avg_period_length := 31 \<rparr>)"
  using calculate_predictions_nonempty [OF singleton_sorted [of long_record],
    where st = st and a = 28 and t = "ymd 2024 1 29"]
  by (simp add: singleton_effective long_length)
     (simp add: long_record_def ymd_2024_1 date_arith)

lemma half_gap_latest:
  assumes "\<lparr> p_start = ls, p_end = le \<rparr> \<in> set half_gap_history"
    and "\<forall>p \<in> set half_gap_history. p_start p \<le> ls"
  shows "ls = 738947 \<and> le = 738951"
  using assms by (auto simp: half_gap_history_def ymd_2024_1 ymd_2024_3)

subsection \<open>When a call returns\<close>

text \<open>
  The claims below speak about what a call returns. A call on a non-empty history
  returns, rather than raising, whenever the averages are at least 1 and the projected
  dates stay inside the range of \<^verbatim>\<open>date\<close>: the latest start is not within the first
  nineteen days of year 1, and the target date and the latest start are at least an
  average cycle, and the target date an average menses length, before the end of year
  9999. The averages are at least 1 for records with \<open>end \<ge> start\<close> and, when there are
  two records or more, pairwise distinct start dates.
\<close>

lemma projected_branch_returns:
  assumes "1 \<le> c" and "1 \<le> m" and "ls \<le> t" and "20 \<le> ls"
    and "t + c \<le> MAXORD" and "t + m \<le> MAXORD + 1"
  shows "\<exists>r. projected_branch t ls c m (t - ls + 1) r0 = Inr r"
proof -
  let ?pcs = "ls + (t - ls) div c * c"
  have b: "?pcs \<le> t" "t < ?pcs + c" "0 \<le> (t - ls) div c * c"
    using floor_cycle_bounds(1,2) [OF assms(1), of "t - ls"] assms(1,3)
    by (simp_all add: pos_imp_zdiv_nonneg_iff)
  have mx: "MAXORD = 3652059" "MINORD = 1" by (simp_all add: MAXORD_def MINORD_def)
  have 1: "plus_days ls ((t - ls) div c * c) = Inr ?pcs"
    using b assms mx by (intro plus_days_ok) linarith+
  have 2: "plus_days ?pcs c = Inr (?pcs + c)"
    using b assms mx by (intro plus_days_ok) linarith+
  have 3: "plus_days ?pcs (m - 1) = Inr (?pcs + (m - 1))"
    using b assms mx by (intro plus_days_ok) linarith+
  have 4: "minus_days (?pcs + c) 14 = Inr (?pcs + c - 14)"
    using b assms mx by (intro minus_days_ok) linarith+
  have 5: "minus_days (?pcs + c - 14) 5 = Inr (?pcs + c - 14 - 5)"
    using b assms mx by (intro minus_days_ok) linarith+
  have c0: "c \<noteq> 0" using assms(1) by simp
  show ?thesis
    unfolding projected_branch_def Let_def
    by (simp only: add_diff_cancel_right' c0 if_False 1 2 3 4 5 sum.case) auto
qed

lemma calculate_predictions_returns:
  assumes "sorted_periods_of h = lr # rest"
    and "1 \<le> effective_avg_cycle h a" and "1 \<le> computed_period_length h"
    and "20 \<le> p_start lr" and "MINORD \<le> t"
    and "t + effective_avg_cycle h a \<le> MAXORD"
    and "p_start lr + effective_avg_cycle h a \<le> MAXORD"
    and "t + computed_period_length h \<le> MAXORD + 1"
  shows "\<exists>r. fst (calculate_predictions st h a t) = Inr r"
proof -
  let ?c = "effective_avg_cycle h a"
  have mx: "MAXORD = 3652059" "MINORD = 1" by (simp_all add: MAXORD_def MINORD_def)
  have n: "plus_days (p_start lr) ?c = Inr (p_start lr + ?c)"
    using assms mx by (intro plus_days_ok) linarith+
  show ?thesis
  proof (cases "t < p_start lr \<or> t \<le> p_end lr")
    case True
    then show ?thesis
      by (auto simp: calculate_predictions_nonempty [OF assms(1)] stage_step_def Let_def n)
  next
    case False
    then have "p_start lr \<le> t" by simp
    from projected_branch_returns [OF assms(2,3) this assms(4,6,8)] False
    show ?thesis
      by (simp add: calculate_predictions_nonempty [OF assms(1)] stage_step_def Let_def)
  qed
qed


lemma py_round_div_ge_one:
  assumes "0 < b" and "b \<le> a"
  shows "1 \<le> py_round_div a b"
proof -
  have "b div b \<le> a div b" using assms by (intro zdiv_mono1) simp_all
  then have "1 \<le> a div b" using assms(1) by simp
  moreover have "a div b \<le> py_round_div a b" by (simp add: py_round_div_def Let_def)
  ultimately show ?thesis by linarith
qed

lemma computed_period_length_pos:
  assumes "h \<noteq> []" and "\<forall>p \<in> set h. p_start p \<le> p_end p"
  shows "1 \<le> computed_period_length h"
proof -
  have "int (length xs) \<le> sum_list (map (\<lambda>r. (p_end r - p_start r) + 1) xs)"
    if "\<forall>p \<in> set xs. p_start p \<le> p_end p" for xs :: "period list"
    using that by (induction xs) auto
  from this [OF assms(2)] have "int (length h) \<le> total_period_length_of h"
    by (simp add: total_period_length_of_def)
  moreover have "0 < int (length h)" using assms(1) by simp
  ultimately show ?thesis
    unfolding computed_period_length_def by (intro py_round_div_ge_one)
qed

lemma gaps_of_strictly_descending:
  "sorted_wrt (\<lambda>x y. y < x) xs \<Longrightarrow> int (length (consecutive_gaps xs)) \<le> sum_list (consecutive_gaps xs)"
  by (induction xs rule: consecutive_gaps.induct) auto

lemma effective_avg_cycle_pos:
  assumes "2 \<le> length h" and "distinct (map p_start h)"
  shows "1 \<le> effective_avg_cycle h a"
proof -
  have "sorted_wrt (<) (sort (map p_start h))"
    using assms(2) by (simp add: strict_sorted_iff)
  then have "sorted_wrt (\<lambda>x y. y < x) (starts_descending h)"
    by (simp add: starts_descending_def sorted_wrt_rev)
  from gaps_of_strictly_descending [OF this]
  have le: "int (length (consecutive_gaps (starts_descending h)))
              \<le> sum_list (consecutive_gaps (starts_descending h))" .
  have "0 < int (length (consecutive_gaps (starts_descending h)))"
    using gaps_nonempty [OF assms(1)] by simp
  from py_round_div_ge_one [OF this le] show ?thesis
    by (simp add: effective_avg_cycle_gaps [OF assms(1)])
qed

section \<open>The claims\<close>

subsection \<open>C1: the averages are rounded means\<close>

text \<open>
  C1. For a non-empty history with pairwise distinct start dates, whenever the call
  returns: with at least 2 records the average cycle it reports is the mean of the day
  gaps between consecutive start dates, sorted descending, rounded to an integer (no
  integer is nearer to the mean); with exactly 1 record it is the average passed by the
  caller; the average menses length is the mean of \<open>(end - start) + 1\<close> over all records,
  rounded to an integer; and a call on any reordering of the records returns the same
  result and leaves the same session state. The condition \<open>end \<ge> start\<close> of the claim is
  not needed.
\<close>

theorem averages_are_rounded_means:
  assumes "history \<noteq> []" and "distinct (map p_start history)"
    and "calculate_predictions st history prev t = (Inr r, st')"
  shows "(2 \<le> length history \<longrightarrow>
            is_rounded_mean (avg_cycle r) (consecutive_gaps (starts_descending history)))
       \<and> (length history = 1 \<longrightarrow> avg_cycle r = prev)
       \<and> is_rounded_mean (avg_period_length r) (menses_lengths history)
       \<and> (\<forall>history'. mset history' = mset history \<longrightarrow>
            calculate_predictions st history' prev t = (Inr r, st'))"
proof -
  from calculate_predictions_Inr_last [OF assms(3,1)]
  obtain ls le where last: "last_period_date r = Some ls" "last_period_end_date r = Some le"
    by blast
  note c = calculate_predictions_Inr(2) [OF assms(3) last]
  note m = calculate_predictions_Inr(3) [OF assms(3) last]
  have cyc: "is_rounded_mean (avg_cycle r) (consecutive_gaps (starts_descending history))"
    if "2 \<le> length history"
    using is_rounded_mean_py_round_div [OF gaps_nonempty [OF that]]
    by (simp add: c effective_avg_cycle_gaps [OF that])
  have one: "avg_cycle r = prev" if "length history = 1"
    using that by (simp add: c effective_avg_cycle_def)
  have "menses_lengths history \<noteq> []" using assms(1) by (simp add: menses_lengths_def)
  from is_rounded_mean_py_round_div [OF this]
  have men: "is_rounded_mean (avg_period_length r) (menses_lengths history)"
    by (simp add: m computed_period_length_lengths)
  have perm: "calculate_predictions st history' prev t = (Inr r, st')"
    if "mset history' = mset history" for history'
    using calculate_predictions_permutation [OF that assms(2)] assms(3) by simp
  show ?thesis using cyc one men perm by blast
qed

text \<open>
  C1 on the three records of \<open>half_gap_history\<close> and their reversal, queried for
  2024-03-20, and on the single example record with a previous average of 30.
\<close>

theorem averages_are_rounded_means_witness:
  "(case returned (calculate_predictions (initial_session (ymd 2024 3 20)) half_gap_history 28
        (ymd 2024 3 20)) of
      None \<Rightarrow> False
    | Some r \<Rightarrow> half_gap_history \<noteq> [] \<and> distinct (map p_start half_gap_history)
        \<and> 2 \<le> length half_gap_history
        \<and> is_rounded_mean (avg_cycle r) (consecutive_gaps (starts_descending half_gap_history))
        \<and> is_rounded_mean (avg_period_length r) (menses_lengths half_gap_history)
        \<and> mset (rev half_gap_history) = mset half_gap_history
        \<and> returned (calculate_predictions (initial_session (ymd 2024 3 20))
             (rev half_gap_history) 28 (ymd 2024 3 20)) = Some r)
   \<and> (case returned (calculate_predictions (initial_session (ymd 2024 1 3)) [example_record] 30
        (ymd 2024 1 3)) of
      None \<Rightarrow> False
    | Some r \<Rightarrow> [example_record] \<noteq> [] \<and> distinct (map p_start [example_record])
        \<and> length [example_record] = 1 \<and> avg_cycle r = 30)"
proof -
  obtain r s where
    e: "calculate_predictions (initial_session (ymd 2024 3 20)) half_gap_history 28
          (ymd 2024 3 20) = (Inr r, s)"
    by (simp add: half_gap_mar_20)
  have h: "half_gap_history \<noteq> []" "distinct (map p_start half_gap_history)"
    "2 \<le> length half_gap_history" "mset (rev half_gap_history) = mset half_gap_history"
    by (simp_all add: half_gap_history_def ymd_2024_1 ymd_2024_3)
  note a = averages_are_rounded_means [OF h(1,2) e]
  have a1: "is_rounded_mean (avg_cycle r) (consecutive_gaps (starts_descending half_gap_history))"
    and a2: "is_rounded_mean (avg_period_length r) (menses_lengths half_gap_history)"
    and a3: "calculate_predictions (initial_session (ymd 2024 3 20)) (rev half_gap_history) 28
               (ymd 2024 3 20) = (Inr r, s)"
    using a h(3,4) by blast+
  obtain r' s' where
    e': "calculate_predictions (initial_session (ymd 2024 1 3)) [example_record] 30
          (ymd 2024 1 3) = (Inr r', s')"
    by (simp add: example_jan_3_prev_30)
  have h': "[example_record] \<noteq> []" "distinct (map p_start [example_record])"
    "length [example_record] = 1"
    by simp_all
  note b = averages_are_rounded_means [OF h'(1,2) e']
  have b1: "avg_cycle r' = 30" using b by simp
  show ?thesis
    using e a1 a2 a3 h e' b1 by (simp add: returned_def)
qed

subsection \<open>C2: the query for 2024-01-10\<close>

text \<open>
  C2, as the code computes it. With the single record 2024-01-01 to 2024-01-05 and an
  average cycle of 28, whatever the session state holds (the average menses length is
  recomputed from the record and is 5), the call for 2024-01-10 returns the fertile
  stage with cycle day 10 and 19 days to the next period: the projected ovulation is
  2024-01-15 and the fertile window starts five days earlier, on 2024-01-10 itself.
\<close>

theorem example_jan_10_is_fertile:
  "map_option (\<lambda>r. (current_stage r, days_to_next_period r))
     (returned (calculate_predictions st [example_record] 28 (ymd 2024 1 10)))
   = Some (Fertile 10, Some 19)"
  by (simp add: example_jan_10 returned_def)

text \<open>
  C2 as the claim states it (the follicular stage on 2024-01-10) fails on a first run of
  the script.
\<close>

theorem example_jan_10_not_follicular:
  "map_option current_stage
     (returned (calculate_predictions (initial_session (ymd 2024 1 10)) [example_record] 28
        (ymd 2024 1 10))) \<noteq> Some (Follicular 10)"
  by (simp add: example_jan_10 returned_def)

text \<open>The fertile stage on 2024-01-10, on a first run of the script.\<close>

theorem example_jan_10_is_fertile_witness:
  "map_option (\<lambda>r. (current_stage r, days_to_next_period r))
     (returned (calculate_predictions (initial_session (ymd 2024 1 10)) [example_record] 28
        (ymd 2024 1 10)))
   = Some (Fertile 10, Some 19)"
  using example_jan_10_is_fertile [of "initial_session (ymd 2024 1 10)"] by simp

subsection \<open>C3: the query for 2024-01-29\<close>

text \<open>
  C3, as the code computes it. With the same record and averages, the call for
  2024-01-29, the day the next period is projected to start, returns the projected
  menses stage with cycle day 1; the next period it reports is the one after, on
  2024-02-26, 28 days away.
\<close>

theorem example_jan_29_is_projected_menses:
  "map_option (\<lambda>r. (current_stage r, days_to_next_period r, next_period_start r))
     (returned (calculate_predictions st [example_record] 28 (ymd 2024 1 29)))
   = Some (MensesProjected 1, Some 28, Some (ymd 2024 2 26))"
  by (simp add: example_jan_29 returned_def ymd_2024_2)

text \<open>
  C3 as the claim states it (the delayed stage with 0 days to the next period on
  2024-01-29) fails on a first run of the script.
\<close>

theorem example_jan_29_not_delayed:
  "map_option (\<lambda>r. (is_delayed (current_stage r), days_to_next_period r))
     (returned (calculate_predictions (initial_session (ymd 2024 1 29)) [example_record] 28
        (ymd 2024 1 29))) \<noteq> Some (True, Some 0)"
  by (simp add: example_jan_29 returned_def)

text \<open>The projected menses stage on 2024-01-29, on a first run of the script.\<close>

theorem example_jan_29_is_projected_menses_witness:
  "map_option (\<lambda>r. (current_stage r, days_to_next_period r, next_period_start r))
     (returned (calculate_predictions (initial_session (ymd 2024 1 29)) [example_record] 28
        (ymd 2024 1 29)))
   = Some (MensesProjected 1, Some 28, Some (ymd 2024 2 26))"
  using example_jan_29_is_projected_menses [of "initial_session (ymd 2024 1 29)"] by simp

subsection \<open>C4: the delayed stage is never returned\<close>

text \<open>
  C4. Whenever a call returns and the average cycle it reports (the one it classified
  with) is at least 1, the stage is not the delayed one; and in the projected-cycle mode
  (the target date is after the last recorded end and not before the last start) the
  next period start \<open>n\<close> it reports satisfies \<open>n - avg_cycle \<le> target < n\<close>, that is,
  the target lies between the projected cycle start and the projected next period
  start, so the test \<open>target \<ge> projected_next_period_start\<close> cannot succeed.
\<close>

theorem delayed_unreachable:
  assumes "calculate_predictions st history a t = (Inr r, st')"
    and "1 \<le> avg_cycle r"
  shows "\<not> is_delayed (current_stage r) \<and>
         (\<forall>ls le. last_period_date r = Some ls \<and> last_period_end_date r = Some le
                   \<and> ls \<le> t \<and> le < t
            \<longrightarrow> (\<exists>n. next_period_start r = Some n \<and> n - avg_cycle r \<le> t \<and> t < n))"
proof (cases "history = []")
  case True
  then have "r = default_result st a t"
    using assms(1) by (auto simp add: calculate_predictions_empty)
  then show ?thesis by (simp add: default_result_def)
next
  case False
  from calculate_predictions_Inr_last [OF assms(1) False]
  obtain ls le where last: "last_period_date r = Some ls" "last_period_end_date r = Some le"
    by blast
  from calculate_predictions_Inr(2,4) [OF assms(1) last]
  obtain r0 where c: "avg_cycle r = effective_avg_cycle history a"
    and step: "stage_step t ls le (avg_cycle r) (computed_period_length history) r0 = Inr r"
    by auto
  let ?c = "avg_cycle r"
  let ?m = "computed_period_length history"
  consider (hist) "t < ls" | (rec) "ls \<le> t" "t \<le> le" | (proj) "ls \<le> t" "le < t"
    by linarith
  then show ?thesis
  proof cases
    case hist
    then show ?thesis
      using stage_step_historical(1) [OF step] last by simp
  next
    case rec
    then show ?thesis
      using stage_step_recorded(1) [OF step] last by simp
  next
    case proj
    note pos = stage_step_projected_pos [OF step proj assms(2)]
    have b: "ls + (t - ls) div ?c * ?c \<le> t" "t < ls + (t - ls) div ?c * ?c + ?c"
      using floor_cycle_bounds(1,2) [OF assms(2), of "t - ls"] by linarith+
    have nd: "\<not> is_delayed (current_stage r)"
      using pos(1) by (simp add: Let_def)
    show ?thesis
      using nd pos(2) b last by simp
  qed
qed

text \<open>C4 at 2024-01-28, the last day before the projected next period.\<close>

theorem delayed_unreachable_witness:
  "(case returned (calculate_predictions (initial_session (ymd 2024 1 28)) [example_record] 28
        (ymd 2024 1 28)) of
      None \<Rightarrow> False
    | Some r \<Rightarrow> 1 \<le> avg_cycle r \<and> \<not> is_delayed (current_stage r)
        \<and> next_period_start r = Some (ymd 2024 1 29)
        \<and> ymd 2024 1 29 - avg_cycle r \<le> ymd 2024 1 28 \<and> ymd 2024 1 28 < ymd 2024 1 29)"
proof -
  obtain r s where
    e: "calculate_predictions (initial_session (ymd 2024 1 28)) [example_record] 28
          (ymd 2024 1 28) = (Inr r, s)"
    and f: "avg_cycle r = 28" "last_period_date r = Some 738886"
      "last_period_end_date r = Some 738890" "next_period_start r = Some 738914"
    by (simp add: example_jan_28)
  have h: "1 \<le> avg_cycle r" using f by simp
  show ?thesis
    using delayed_unreachable [OF e h] e f
    by (simp add: returned_def ymd_2024_1)
qed

subsection \<open>C5: the order of the stages within the first projected cycle\<close>

text \<open>
  C5, as the code computes it. For a non-empty history there is a record of it, with
  start \<open>ls\<close> and end \<open>le\<close>, whose start no record of the history exceeds, that every
  call that returns reports as the last period, and for which, when \<open>ls \<le> le\<close>:
  \<^item> for two calls that return, with target dates \<open>t1 \<le> t2\<close> after \<open>le\<close> and before the
    projected next period start \<open>ls + avg_cycle\<close>, the stage of \<open>t2\<close> does not come before
    the stage of \<open>t1\<close> in the order projected menses, follicular, fertile, luteal, and
    neither is the delayed stage;
  \<^item> a call that returns for the projected next period start \<open>ls + avg_cycle\<close> itself,
    when that day is after \<open>le\<close> and the average menses length is at least 1, gives the
    projected menses stage with cycle day 1, a whole average cycle before the next
    period it reports. This covers \<open>le = ls + avg_cycle - 1\<close>, where no day lies between
    \<open>le\<close> and the projected start.
  When the recorded period reaches the projected start (\<open>le \<ge> ls + avg_cycle\<close>), that day
  is a day of the recorded menses, as \<open>long_jan_29\<close> shows, and the second item does not
  apply.
\<close>

theorem phases_in_order_within_cycle:
  assumes "history \<noteq> []"
  shows "\<exists>ls le. \<lparr> p_start = ls, p_end = le \<rparr> \<in> set history
           \<and> (\<forall>p \<in> set history. p_start p \<le> ls)
           \<and> (\<forall>sa t1 r1 sa' sb t2 r2 sb'.
                 calculate_predictions sa history a t1 = (Inr r1, sa')
                 \<and> calculate_predictions sb history a t2 = (Inr r2, sb')
                 \<and> ls \<le> le \<and> le < t1 \<and> t1 \<le> t2 \<and> t2 < ls + avg_cycle r1
               \<longrightarrow> last_period_date r1 = Some ls \<and> last_period_end_date r1 = Some le
                   \<and> avg_cycle r2 = avg_cycle r1
                   \<and> stage_rank (current_stage r1) \<le> stage_rank (current_stage r2)
                   \<and> stage_rank (current_stage r2) \<le> 3)
           \<and> (\<forall>sc t3 r3 sc'.
                 calculate_predictions sc history a t3 = (Inr r3, sc')
                 \<and> t3 = ls + avg_cycle r3
                 \<and> ls \<le> le \<and> le < t3 \<and> 1 \<le> avg_period_length r3
               \<longrightarrow> last_period_date r3 = Some ls \<and> last_period_end_date r3 = Some le
                   \<and> current_stage r3 = MensesProjected 1
                   \<and> days_to_next_period r3 = Some (avg_cycle r3))"
proof -
  let ?c = "effective_avg_cycle history a"
  let ?m = "computed_period_length history"
  from calculate_predictions_latest [OF assms, of a]
  obtain ls le where mem: "\<lparr> p_start = ls, p_end = le \<rparr> \<in> set history"
    and mx: "\<forall>p \<in> set history. p_start p \<le> ls"
    and calls: "\<And>s t r s'. calculate_predictions s history a t = (Inr r, s') \<Longrightarrow>
                 last_period_date r = Some ls \<and> last_period_end_date r = Some le
                 \<and> avg_cycle r = ?c \<and> avg_period_length r = ?m
                 \<and> (\<exists>q. stage_step t ls le ?c ?m q = Inr r)"
    by blast
  have in_cycle: "\<And>t. ls \<le> t \<Longrightarrow> t < ls + ?c \<Longrightarrow> (t - ls) div ?c = 0"
    by (simp add: div_pos_pos_trivial)
  have stage_in_cycle:
    "current_stage r =
       (let dy = (t - ls) mod ?c + 1
        in if t \<le> ls + (?m - 1) then MensesProjected dy
           else if ls + ?c - 14 < t then Luteal dy
           else if ls + ?c - 19 \<le> t then Fertile dy
           else Follicular dy)"
    if "stage_step t ls le ?c ?m q = Inr r" and "ls \<le> t" and "le < t" and "t < ls + ?c"
    for t q r
  proof -
    have cpos: "1 \<le> ?c" using that(2,4) by linarith
    show ?thesis
      using stage_step_projected_pos(1) [OF that(1,2,3) cpos] in_cycle [OF that(2,4)]
      by (simp add: Let_def)
  qed
  have pair: "last_period_date r1 = Some ls \<and> last_period_end_date r1 = Some le
                \<and> avg_cycle r2 = avg_cycle r1
                \<and> stage_rank (current_stage r1) \<le> stage_rank (current_stage r2)
                \<and> stage_rank (current_stage r2) \<le> 3"
    if "calculate_predictions sa history a t1 = (Inr r1, sa')
        \<and> calculate_predictions sb history a t2 = (Inr r2, sb')
        \<and> ls \<le> le \<and> le < t1 \<and> t1 \<le> t2 \<and> t2 < ls + avg_cycle r1"
    for sa t1 r1 sa' sb t2 r2 sb'
  proof -
    from that calls [of sa t1 r1 sa'] obtain q1 where
      l1: "last_period_date r1 = Some ls" "last_period_end_date r1 = Some le"
      and c1: "avg_cycle r1 = ?c" and step1: "stage_step t1 ls le ?c ?m q1 = Inr r1"
      by auto
    from that calls [of sb t2 r2 sb'] obtain q2 where
      c2: "avg_cycle r2 = ?c" and step2: "stage_step t2 ls le ?c ?m q2 = Inr r2"
      by auto
    have b: "ls \<le> t1" "le < t1" "t1 < ls + ?c" "ls \<le> t2" "le < t2" "t2 < ls + ?c" "t1 \<le> t2"
      using that c1 by linarith+
    note st1 = stage_in_cycle [OF step1 b(1,2,3)]
    note st2 = stage_in_cycle [OF step2 b(4,5,6)]
    have order: "stage_rank (current_stage r1) \<le> stage_rank (current_stage r2)"
      unfolding st1 st2 Let_def using b(7) by auto
    have upper: "stage_rank (current_stage r2) \<le> 3"
      unfolding st2 Let_def by auto
    show ?thesis using l1 c1 c2 order upper by simp
  qed
  have endpoint: "last_period_date r3 = Some ls \<and> last_period_end_date r3 = Some le
                    \<and> current_stage r3 = MensesProjected 1
                    \<and> days_to_next_period r3 = Some (avg_cycle r3)"
    if "calculate_predictions sc history a t3 = (Inr r3, sc')
        \<and> t3 = ls + avg_cycle r3
        \<and> ls \<le> le \<and> le < t3 \<and> 1 \<le> avg_period_length r3"
    for sc t3 r3 sc'
  proof -
    from that calls [of sc t3 r3 sc'] obtain q3 where
      l3: "last_period_date r3 = Some ls" "last_period_end_date r3 = Some le"
      and c3: "avg_cycle r3 = ?c" and m3: "avg_period_length r3 = ?m"
      and step3: "stage_step t3 ls le ?c ?m q3 = Inr r3"
      by auto
    have t3: "t3 = ls + ?c" using that c3 by simp
    have cpos: "1 \<le> ?c" using that t3 by linarith
    have b: "ls \<le> t3" "le < t3" using that t3 cpos by linarith+
    have mpos: "1 \<le> ?m" using that m3 by simp
    note pos = stage_step_projected_pos [OF step3 b cpos]
    have "current_stage r3 = MensesProjected 1"
      using pos(1) cpos mpos by (simp add: Let_def t3)
    moreover have "days_to_next_period r3 = Some ?c"
      using pos(3) cpos by (simp add: t3)
    ultimately show ?thesis using l3 c3 by simp
  qed
  show ?thesis
    using mem mx pair endpoint by blast
qed

text \<open>
  C5 as the claim states it fails between 2024-01-28 and 2024-01-29, the projected next
  period start: the luteal stage is followed by the projected menses stage, which comes
  first in the order, and not by the delayed stage.
\<close>

theorem luteal_then_menses_at_projected_start:
  "map_option current_stage
     (returned (calculate_predictions (initial_session (ymd 2024 1 28)) [example_record] 28
        (ymd 2024 1 28))) = Some (Luteal 28)
   \<and> map_option current_stage
     (returned (calculate_predictions (initial_session (ymd 2024 1 29)) [example_record] 28
        (ymd 2024 1 29))) = Some (MensesProjected 1)
   \<and> \<not> stage_rank (Luteal 28) \<le> stage_rank (MensesProjected 1)"
  by (simp add: example_jan_28 example_jan_29 returned_def)

text \<open>
  C5, as the code computes it: on the three records of \<open>half_gap_history\<close>, whose latest
  record is 2024-03-02 to 2024-03-06 and whose average cycle is 30, at 2024-03-10 and
  2024-03-20 and at the projected start 2024-04-01; and on the 28-day record with a
  cycle of 28, at the projected start 2024-01-29, the day after the recorded end.
\<close>

theorem phases_in_order_within_cycle_witness:
  "(case (returned (calculate_predictions (initial_session (ymd 2024 3 10)) half_gap_history 28
            (ymd 2024 3 10)),
          returned (calculate_predictions (initial_session (ymd 2024 3 20)) half_gap_history 28
            (ymd 2024 3 20)),
          returned (calculate_predictions (initial_session (ymd 2024 4 1)) half_gap_history 28
            (ymd 2024 4 1))) of
      (Some r1, Some r2, Some r3) \<Rightarrow>
        half_gap_history \<noteq> []
        \<and> \<lparr> p_start = ymd 2024 3 2, p_end = ymd 2024 3 6 \<rparr> \<in> set half_gap_history
        \<and> ymd 2024 3 2 \<le> ymd 2024 3 6 \<and> ymd 2024 3 6 < ymd 2024 3 10
        \<and> ymd 2024 3 10 \<le> ymd 2024 3 20 \<and> ymd 2024 3 20 < ymd 2024 3 2 + avg_cycle r1
        \<and> last_period_date r1 = Some (ymd 2024 3 2)
        \<and> last_period_end_date r1 = Some (ymd 2024 3 6)
        \<and> stage_rank (current_stage r1) \<le> stage_rank (current_stage r2)
        \<and> stage_rank (current_stage r2) \<le> 3
        \<and> ymd 2024 4 1 = ymd 2024 3 2 + avg_cycle r3
        \<and> ymd 2024 3 6 < ymd 2024 4 1 \<and> 1 \<le> avg_period_length r3
        \<and> current_stage r3 = MensesProjected 1
        \<and> days_to_next_period r3 = Some (avg_cycle r3)
    | _ \<Rightarrow> False)
   \<and> (case returned (calculate_predictions (initial_session (ymd 2024 1 29)) [four_week_record]
          28 (ymd 2024 1 29)) of
      None \<Rightarrow> False
    | Some r \<Rightarrow> ymd 2024 1 29 = ymd 2024 1 1 + avg_cycle r
        \<and> ymd 2024 1 1 \<le> ymd 2024 1 28 \<and> ymd 2024 1 28 < ymd 2024 1 29
        \<and> 1 \<le> avg_period_length r
        \<and> last_period_date r = Some (ymd 2024 1 1)
        \<and> last_period_end_date r = Some (ymd 2024 1 28)
        \<and> current_stage r = MensesProjected 1
        \<and> days_to_next_period r = Some (avg_cycle r))"
proof -
  obtain r1 s1 where
    e1: "calculate_predictions (initial_session (ymd 2024 3 10)) half_gap_history 28
          (ymd 2024 3 10) = (Inr r1, s1)"
    and f1: "avg_cycle r1 = 30"
    by (simp add: half_gap_mar_10)
  obtain r2 s2 where
    e2: "calculate_predictions (initial_session (ymd 2024 3 20)) half_gap_history 28
          (ymd 2024 3 20) = (Inr r2, s2)"
    by (simp add: half_gap_mar_20)
  obtain r3 s3 where
    e3: "calculate_predictions (initial_session (ymd 2024 4 1)) half_gap_history 28
          (ymd 2024 4 1) = (Inr r3, s3)"
    and f3: "avg_cycle r3 = 30" "avg_period_length r3 = 5"
    by (simp add: half_gap_apr_1)
  have n: "half_gap_history \<noteq> []"
    and m: "\<lparr> p_start = ymd 2024 3 2, p_end = ymd 2024 3 6 \<rparr> \<in> set half_gap_history"
    by (simp_all add: half_gap_history_def)
  from phases_in_order_within_cycle [OF n, of 28]
  obtain ls le where mem: "\<lparr> p_start = ls, p_end = le \<rparr> \<in> set half_gap_history"
    and mx: "\<forall>p \<in> set half_gap_history. p_start p \<le> ls"
    and pair: "\<And>sa t1 r1 sa' sb t2 r2 sb'.
                 calculate_predictions sa half_gap_history 28 t1 = (Inr r1, sa')
                 \<and> calculate_predictions sb half_gap_history 28 t2 = (Inr r2, sb')
                 \<and> ls \<le> le \<and> le < t1 \<and> t1 \<le> t2 \<and> t2 < ls + avg_cycle r1
               \<Longrightarrow> last_period_date r1 = Some ls \<and> last_period_end_date r1 = Some le
                   \<and> avg_cycle r2 = avg_cycle r1
                   \<and> stage_rank (current_stage r1) \<le> stage_rank (current_stage r2)
                   \<and> stage_rank (current_stage r2) \<le> 3"
    and endpoint: "\<And>sc t3 r3 sc'.
                 calculate_predictions sc half_gap_history 28 t3 = (Inr r3, sc')
                 \<and> t3 = ls + avg_cycle r3
                 \<and> ls \<le> le \<and> le < t3 \<and> 1 \<le> avg_period_length r3
               \<Longrightarrow> last_period_date r3 = Some ls \<and> last_period_end_date r3 = Some le
                   \<and> current_stage r3 = MensesProjected 1
                   \<and> days_to_next_period r3 = Some (avg_cycle r3)"
    by blast
  have l: "ls = 738947" "le = 738951"
    using half_gap_latest [OF mem mx] by simp_all
  have a: "last_period_date r1 = Some 738947 \<and> last_period_end_date r1 = Some 738951
           \<and> stage_rank (current_stage r1) \<le> stage_rank (current_stage r2)
           \<and> stage_rank (current_stage r2) \<le> 3"
    using pair [of _ "ymd 2024 3 10" r1 s1 _ "ymd 2024 3 20" r2 s2] e1 e2 f1 l
    by (simp add: ymd_2024_3)
  have b: "current_stage r3 = MensesProjected 1 \<and> days_to_next_period r3 = Some (avg_cycle r3)"
    using endpoint [of _ "ymd 2024 4 1" r3 s3] e3 f3 l
    by (simp add: ymd_2024_4)
  obtain r4 s4 where
    e4: "calculate_predictions (initial_session (ymd 2024 1 29)) [four_week_record] 28
          (ymd 2024 1 29) = (Inr r4, s4)"
    and f4: "avg_cycle r4 = 28" "avg_period_length r4 = 28"
      "last_period_date r4 = Some 738886" "last_period_end_date r4 = Some 738913"
    by (simp add: four_week_jan_29)
  have n4: "[four_week_record] \<noteq> []" by simp
  from phases_in_order_within_cycle [OF n4, of 28]
  obtain ls' le' where mem': "\<lparr> p_start = ls', p_end = le' \<rparr> \<in> set [four_week_record]"
    and endpoint': "\<And>sc t3 r3 sc'.
                 calculate_predictions sc [four_week_record] 28 t3 = (Inr r3, sc')
                 \<and> t3 = ls' + avg_cycle r3
                 \<and> ls' \<le> le' \<and> le' < t3 \<and> 1 \<le> avg_period_length r3
               \<Longrightarrow> last_period_date r3 = Some ls' \<and> last_period_end_date r3 = Some le'
                   \<and> current_stage r3 = MensesProjected 1
                   \<and> days_to_next_period r3 = Some (avg_cycle r3)"
    by blast
  have l': "ls' = 738886" "le' = 738913"
    using mem' by (simp_all add: four_week_record_def ymd_2024_1)
  have c: "current_stage r4 = MensesProjected 1 \<and> days_to_next_period r4 = Some (avg_cycle r4)"
    using endpoint' [of _ "ymd 2024 1 29" r4 s4] e4 f4 l'
    by (simp add: ymd_2024_1)
  show ?thesis
    using e1 f1 e2 e3 f3 n m a b e4 f4 c
    by (simp add: returned_def ymd_2024_1 ymd_2024_3 ymd_2024_4)
qed

subsection \<open>C6: days to the next period inside and before the last record\<close>

text \<open>
  C6. Whenever a call returns for a non-empty history, there is a record of the history,
  with start \<open>ls\<close> and end \<open>le\<close>, whose start no record of the history exceeds, that the
  call reports as the last period, and: for a target date with \<open>ls \<le> target \<le> le\<close> the
  stage is the recorded menses with day \<open>(target - ls) + 1\<close> and the days to the next
  period are the gap from the target to \<open>ls + avg_cycle\<close>, or 0 when that gap is
  negative, and never null; for a target date before \<open>ls\<close> the stage is the historical
  one and the days are that gap when it is positive and null otherwise.
\<close>

theorem days_until_next_recorded_and_historical:
  assumes "calculate_predictions st history a t = (Inr r, st')" and "history \<noteq> []"
  shows "\<exists>ls le. \<lparr> p_start = ls, p_end = le \<rparr> \<in> set history
           \<and> (\<forall>p \<in> set history. p_start p \<le> ls)
           \<and> last_period_date r = Some ls \<and> last_period_end_date r = Some le
           \<and> (ls \<le> t \<and> t \<le> le \<longrightarrow>
                current_stage r = MensesRecorded ((t - ls) + 1)
                \<and> days_to_next_period r = Some (max ((ls + avg_cycle r) - t) 0))
           \<and> (t < ls \<longrightarrow>
                current_stage r = HistoricalQuery
                \<and> days_to_next_period r =
                    (if 0 < (ls + avg_cycle r) - t then Some ((ls + avg_cycle r) - t)
                     else None))"
proof -
  from calculate_predictions_latest [OF assms(2), of a]
  obtain ls le where mem: "\<lparr> p_start = ls, p_end = le \<rparr> \<in> set history"
    and mx: "\<forall>p \<in> set history. p_start p \<le> ls"
    and calls: "\<And>s t r s'. calculate_predictions s history a t = (Inr r, s') \<Longrightarrow>
                 last_period_date r = Some ls \<and> last_period_end_date r = Some le
                 \<and> avg_cycle r = effective_avg_cycle history a
                 \<and> avg_period_length r = computed_period_length history
                 \<and> (\<exists>q. stage_step t ls le (effective_avg_cycle history a)
                            (computed_period_length history) q = Inr r)"
    by blast
  from calls [OF assms(1)] obtain q where
    last: "last_period_date r = Some ls" "last_period_end_date r = Some le"
    and c: "avg_cycle r = effective_avg_cycle history a"
    and step: "stage_step t ls le (avg_cycle r) (computed_period_length history) q = Inr r"
    by auto
  have rec: "current_stage r = MensesRecorded ((t - ls) + 1)
             \<and> days_to_next_period r = Some (max ((ls + avg_cycle r) - t) 0)"
    if "ls \<le> t \<and> t \<le> le"
    using stage_step_recorded(1,3) [OF step] that by simp
  have hist: "current_stage r = HistoricalQuery
              \<and> days_to_next_period r =
                    (if 0 < (ls + avg_cycle r) - t then Some ((ls + avg_cycle r) - t)
                     else None)"
    if "t < ls"
    using stage_step_historical(1,3) [OF step that] by simp
  show ?thesis
    using mem mx last rec hist by blast
qed

text \<open>
  C6 in its four cases. Inside the latest of three records (2024-03-04, gap 28); inside
  a record that is longer than the cycle (2024-01-30 in 2024-01-01 to 2024-01-31 with a
  cycle of 28, gap -1, so 0 days); before the latest of three records (2024-02-10, gap
  51); and before the record with a negative average passed by the caller (2023-12-25,
  average -40, gap -33, so null).
\<close>

theorem days_until_next_recorded_and_historical_witness:
  "(case returned (calculate_predictions (initial_session (ymd 2024 3 4)) half_gap_history 28
        (ymd 2024 3 4)) of
      None \<Rightarrow> False
    | Some r \<Rightarrow> \<lparr> p_start = ymd 2024 3 2, p_end = ymd 2024 3 6 \<rparr> \<in> set half_gap_history
        \<and> last_period_date r = Some (ymd 2024 3 2)
        \<and> last_period_end_date r = Some (ymd 2024 3 6)
        \<and> ymd 2024 3 2 \<le> ymd 2024 3 4 \<and> ymd 2024 3 4 \<le> ymd 2024 3 6
        \<and> (ymd 2024 3 2 + avg_cycle r) - ymd 2024 3 4 = 28
        \<and> current_stage r = MensesRecorded 3
        \<and> days_to_next_period r = Some 28)
   \<and> (case returned (calculate_predictions (initial_session (ymd 2024 1 30)) [long_record] 28
        (ymd 2024 1 30)) of
      None \<Rightarrow> False
    | Some r \<Rightarrow> last_period_date r = Some (ymd 2024 1 1)
        \<and> last_period_end_date r = Some (ymd 2024 1 31)
        \<and> ymd 2024 1 1 \<le> ymd 2024 1 30 \<and> ymd 2024 1 30 \<le> ymd 2024 1 31
        \<and> (ymd 2024 1 1 + avg_cycle r) - ymd 2024 1 30 = - 1
        \<and> current_stage r = MensesRecorded 30
        \<and> days_to_next_period r = Some 0)
   \<and> (case returned (calculate_predictions (initial_session (ymd 2024 2 10)) half_gap_history 28
        (ymd 2024 2 10)) of
      None \<Rightarrow> False
    | Some r \<Rightarrow> last_period_date r = Some (ymd 2024 3 2)
        \<and> ymd 2024 2 10 < ymd 2024 3 2
        \<and> (ymd 2024 3 2 + avg_cycle r) - ymd 2024 2 10 = 51
        \<and> current_stage r = HistoricalQuery
        \<and> days_to_next_period r = Some 51)
   \<and> (case returned (calculate_predictions (initial_session (ymd 2023 12 25)) [example_record]
        (- 40) (ymd 2023 12 25)) of
      None \<Rightarrow> False
    | Some r \<Rightarrow> last_period_date r = Some (ymd 2024 1 1)
        \<and> ymd 2023 12 25 < ymd 2024 1 1
        \<and> (ymd 2024 1 1 + avg_cycle r) - ymd 2023 12 25 = - 33
        \<and> current_stage r = HistoricalQuery
        \<and> days_to_next_period r = None)"
proof -
  obtain r1 s1 where
    e1: "calculate_predictions (initial_session (ymd 2024 3 4)) half_gap_history 28
          (ymd 2024 3 4) = (Inr r1, s1)"
    and f1: "avg_cycle r1 = 30" "last_period_date r1 = Some 738947"
      "last_period_end_date r1 = Some 738951"
    by (simp add: half_gap_mar_4)
  have n1: "half_gap_history \<noteq> []" by (simp add: half_gap_history_def)
  have m1: "\<lparr> p_start = ymd 2024 3 2, p_end = ymd 2024 3 6 \<rparr> \<in> set half_gap_history"
    by (simp add: half_gap_history_def)
  have c1: "current_stage r1 = MensesRecorded 3 \<and> days_to_next_period r1 = Some 28"
    using days_until_next_recorded_and_historical [OF e1 n1] f1
    by (auto simp: ymd_2024_3)
  obtain r2 s2 where
    e2: "calculate_predictions (initial_session (ymd 2024 1 30)) [long_record] 28
          (ymd 2024 1 30) = (Inr r2, s2)"
    and f2: "avg_cycle r2 = 28" "last_period_date r2 = Some 738886"
      "last_period_end_date r2 = Some 738916"
    by (simp add: long_jan_30)
  have c2: "current_stage r2 = MensesRecorded 30 \<and> days_to_next_period r2 = Some 0"
    using days_until_next_recorded_and_historical [OF e2] f2
    by (auto simp: ymd_2024_1)
  obtain r3 s3 where
    e3: "calculate_predictions (initial_session (ymd 2024 2 10)) half_gap_history 28
          (ymd 2024 2 10) = (Inr r3, s3)"
    and f3: "avg_cycle r3 = 30" "last_period_date r3 = Some 738947"
      "last_period_end_date r3 = Some 738951"
    by (simp add: half_gap_feb_10)
  have c3: "current_stage r3 = HistoricalQuery \<and> days_to_next_period r3 = Some 51"
    using days_until_next_recorded_and_historical [OF e3 n1] f3
    by (auto simp: ymd_2024_2)
  obtain r4 s4 where
    e4: "calculate_predictions (initial_session (ymd 2023 12 25)) [example_record] (- 40)
          (ymd 2023 12 25) = (Inr r4, s4)"
    and f4: "avg_cycle r4 = - 40" "last_period_date r4 = Some 738886"
      "last_period_end_date r4 = Some 738890"
    by (simp add: example_dec_25_prev_negative)
  have c4: "current_stage r4 = HistoricalQuery \<and> days_to_next_period r4 = None"
    using days_until_next_recorded_and_historical [OF e4] f4
    by (auto simp: ymd_2023_12)
  show ?thesis
    using e1 f1 m1 c1 e2 f2 c2 e3 f3 c3 e4 f4 c4
    by (simp add: returned_def ymd_2024_1 ymd_2024_2 ymd_2024_3 ymd_2023_12)
qed

subsection \<open>C7: ties of the rounding\<close>

text \<open>
  C7, as the code computes it. Whenever the call returns: if the history has at least 2
  records and the mean of the gaps between consecutive start dates is exactly
  \<open>j + 1/2\<close>, the average cycle is the even one of \<open>j\<close> and \<open>j + 1\<close>; and if the mean
  of \<open>(end - start) + 1\<close> over the records is exactly \<open>k + 1/2\<close>, the average menses
  length is the even one of \<open>k\<close> and \<open>k + 1\<close>. Python's \<^verbatim>\<open>round\<close> sends a tie to the
  even neighbour.
\<close>

theorem ties_round_to_even:
  assumes "calculate_predictions st history prev t = (Inr r, st')"
  shows "(2 \<le> length history
            \<and> mean_is_half_above (consecutive_gaps (starts_descending history)) j
          \<longrightarrow> avg_cycle r = (if even j then j else j + 1))
       \<and> (mean_is_half_above (menses_lengths history) k
          \<longrightarrow> avg_period_length r = (if even k then k else k + 1))"
proof (cases "history = []")
  case True
  then show ?thesis by (simp add: mean_is_half_above_def menses_lengths_def)
next
  case False
  from calculate_predictions_Inr_last [OF assms False]
  obtain ls le where last: "last_period_date r = Some ls" "last_period_end_date r = Some le"
    by blast
  note c = calculate_predictions_Inr(2) [OF assms last]
  note m = calculate_predictions_Inr(3) [OF assms last]
  have cyc: "avg_cycle r = (if even j then j else j + 1)"
    if "2 \<le> length history"
      and "mean_is_half_above (consecutive_gaps (starts_descending history)) j"
    using py_round_div_half_above [OF that(2)]
    by (simp add: c effective_avg_cycle_gaps [OF that(1)])
  have men: "avg_period_length r = (if even k then k else k + 1)"
    if "mean_is_half_above (menses_lengths history) k"
    using py_round_div_half_above [OF that]
    by (simp add: m computed_period_length_lengths)
  show ?thesis using cyc men by blast
qed

text \<open>
  C7 as the claim states it fails: gaps of 31 and 30 days have the mean 30.5 and give the
  average cycle 30, not 31; lengths of 4 and 5 days have the mean 4.5 and give the
  average menses length 4, not 5.
\<close>

theorem half_days_round_down_to_even:
  "map_option avg_cycle
     (returned (calculate_predictions (initial_session (ymd 2024 3 20)) half_gap_history 28
        (ymd 2024 3 20))) = Some 30
   \<and> map_option avg_period_length
     (returned (calculate_predictions (initial_session (ymd 2024 2 10)) half_length_history 28
        (ymd 2024 2 10))) = Some 4"
  by (simp add: half_gap_mar_20 half_length_feb_10 returned_def)

text \<open>C7, as the code computes it, on the same two histories.\<close>

theorem ties_round_to_even_witness:
  "(case returned (calculate_predictions (initial_session (ymd 2024 3 20)) half_gap_history 28
        (ymd 2024 3 20)) of
      None \<Rightarrow> False
    | Some r \<Rightarrow> 2 \<le> length half_gap_history
        \<and> mean_is_half_above (consecutive_gaps (starts_descending half_gap_history)) 30
        \<and> avg_cycle r = 30)
   \<and> (case returned (calculate_predictions (initial_session (ymd 2024 2 10))
        half_length_history 28 (ymd 2024 2 10)) of
      None \<Rightarrow> False
    | Some r \<Rightarrow> mean_is_half_above (menses_lengths half_length_history) 4
        \<and> avg_period_length r = 4)"
proof -
  obtain r s where
    e: "calculate_predictions (initial_session (ymd 2024 3 20)) half_gap_history 28
          (ymd 2024 3 20) = (Inr r, s)"
    by (simp add: half_gap_mar_20)
  have h: "2 \<le> length half_gap_history"
    "mean_is_half_above (consecutive_gaps (starts_descending half_gap_history)) 30"
    by (simp_all add: half_gap_starts mean_is_half_above_def) (simp add: half_gap_history_def)
  have a: "avg_cycle r = 30"
    using ties_round_to_even [OF e, of 30 0] h by simp
  obtain r' s' where
    e': "calculate_predictions (initial_session (ymd 2024 2 10)) half_length_history 28
          (ymd 2024 2 10) = (Inr r', s')"
    by (simp add: half_length_feb_10)
  have h': "mean_is_half_above (menses_lengths half_length_history) 4"
    by (simp add: mean_is_half_above_def menses_lengths_def half_length_history_def
        ymd_2024_1 ymd_2024_2)
  have b: "avg_period_length r' = 4"
    using ties_round_to_even [OF e', of 0 4] h' by simp
  show ?thesis
    using e a h e' b h' by (simp add: returned_def)
qed

subsection \<open>C8: the cycle day of the projected cycle\<close>

text \<open>
  C8. Whenever a call returns in the projected-cycle mode (the target date is after the
  last recorded end \<open>le\<close> and not before the last start \<open>ls\<close>) and the average cycle is
  at least 1, the day offset is \<open>(target - ls) + 1\<close>, the day number in the stage label
  is \<open>((dayOffset - 1) mod avg_cycle) + 1\<close>, and it lies between 1 and the average
  cycle.
\<close>

theorem projected_cycle_day_in_range:
  assumes "calculate_predictions st history a t = (Inr r, st')"
    and "last_period_date r = Some ls" and "last_period_end_date r = Some le"
    and "ls \<le> t" and "le < t" and "1 \<le> avg_cycle r"
  shows "day_since_start r = (t - ls) + 1
       \<and> stage_day (current_stage r) = Some ((day_since_start r - 1) mod avg_cycle r + 1)
       \<and> 1 \<le> (day_since_start r - 1) mod avg_cycle r + 1
       \<and> (day_since_start r - 1) mod avg_cycle r + 1 \<le> avg_cycle r"
proof -
  from calculate_predictions_Inr(2,4) [OF assms(1-3)]
  obtain r0 where
    step: "stage_step t ls le (avg_cycle r) (computed_period_length history) r0 = Inr r"
    by auto
  have pb: "projected_branch t ls (avg_cycle r) (computed_period_length history) (t - ls + 1)
              (r0 \<lparr> day_since_start := t - ls + 1 \<rparr>) = Inr r"
    by (rule stage_step_projected [OF step assms(4,5)])
  have d: "day_since_start r = (t - ls) + 1"
    using projected_branch_Inr(5) [OF pb] by simp
  have sd: "stage_day (current_stage r) = Some ((t - ls) mod avg_cycle r + 1)"
    using stage_step_projected_pos(1) [OF step assms(4,5,6)] by (simp add: Let_def)
  show ?thesis
    using d sd floor_cycle_bounds(3,4) [OF assms(6), of "t - ls"] by simp
qed

text \<open>C8 at 2024-01-29, where the day number wraps around to 1.\<close>

theorem projected_cycle_day_in_range_witness:
  "(case returned (calculate_predictions (initial_session (ymd 2024 1 29)) [example_record] 28
        (ymd 2024 1 29)) of
      None \<Rightarrow> False
    | Some r \<Rightarrow> last_period_date r = Some (ymd 2024 1 1)
        \<and> last_period_end_date r = Some (ymd 2024 1 5)
        \<and> ymd 2024 1 1 \<le> ymd 2024 1 29 \<and> ymd 2024 1 5 < ymd 2024 1 29
        \<and> 1 \<le> avg_cycle r
        \<and> day_since_start r = 29
        \<and> stage_day (current_stage r) = Some 1
        \<and> 1 \<le> (day_since_start r - 1) mod avg_cycle r + 1
        \<and> (day_since_start r - 1) mod avg_cycle r + 1 \<le> avg_cycle r)"
proof -
  obtain r s where
    e: "calculate_predictions (initial_session (ymd 2024 1 29)) [example_record] 28
          (ymd 2024 1 29) = (Inr r, s)"
    and f: "avg_cycle r = 28" "last_period_date r = Some 738886"
      "last_period_end_date r = Some 738890"
    by (simp add: example_jan_29)
  have h: "738886 \<le> ymd 2024 1 29" "738890 < ymd 2024 1 29" "1 \<le> avg_cycle r"
    using f by (simp_all add: ymd_2024_1)
  show ?thesis
    using projected_cycle_day_in_range [OF e f(2,3) h] e f
    by (simp add: returned_def ymd_2024_1)
qed

subsection \<open>C9: the average menses length for an empty history\<close>

text \<open>
  C9, as the code computes it. For an empty history the call returns the result it first
  built and leaves the session state alone; the average menses length in it is the
  value the session state holds, which is the default 5 in the session state of a first
  run.
\<close>

theorem empty_history_reports_session_length:
  "calculate_predictions st [] a t = (Inr (default_result st a t), st)
   \<and> map_option avg_period_length (returned (calculate_predictions st [] a t))
       = Some (ss_avg_period_length st)
   \<and> map_option avg_period_length
       (returned (calculate_predictions (initial_session today) [] a t)) = Some 5"
  by (simp add: calculate_predictions_empty returned_def default_result_def initial_session_def)

text \<open>
  C9 as the claim states it fails once a value has been computed: a first run with the
  seven-day record stores 7 in the session state, and a call with the empty history
  after that (the record deleted) reports 7, not 5.
\<close>

theorem empty_history_after_week_reports_7:
  "map_option avg_period_length
     (returned (calculate_predictions
        (snd (calculate_predictions (initial_session (ymd 2024 1 10)) [week_record] 28
                (ymd 2024 1 10)))
        [] 28 (ymd 2024 1 10))) = Some 7"
  by (simp add: week_call_session calculate_predictions_empty returned_def default_result_def)

text \<open>C9, as the code computes it, in the session state of a first run.\<close>

theorem empty_history_reports_session_length_witness:
  "calculate_predictions (initial_session (ymd 2024 1 10)) [] 28 (ymd 2024 1 10)
     = (Inr (default_result (initial_session (ymd 2024 1 10)) 28 (ymd 2024 1 10)),
        initial_session (ymd 2024 1 10))
   \<and> map_option avg_period_length
       (returned (calculate_predictions (initial_session (ymd 2024 1 10)) [] 28
          (ymd 2024 1 10))) = Some 5"
  using empty_history_reports_session_length
    [of "initial_session (ymd 2024 1 10)" 28 "ymd 2024 1 10" "ymd 2024 1 10"]
  by blast

subsection \<open>C10: what a call writes to the session state\<close>

text \<open>
  C10, as the code computes it. The session state after a call, whether the call returns
  or raises: unchanged for an empty history; for a non-empty history the stored average
  menses length is overwritten with the newly computed one and, when the history has
  more than one record, the stored average cycle with the newly computed one. The
  stored history and the stored query date are never written.
\<close>

theorem session_state_after_call:
  "snd (calculate_predictions st history a t) =
     (if history = [] then st
      else st \<lparr> ss_avg_cycle := (if length history > 1
                                  then py_round_div
                                         (total_cycle_length_of
                                            (map p_start (sorted_periods_of history)))
                                         (int (length history) - 1)
                                  else ss_avg_cycle st),
                ss_avg_period_length :=
                  py_round_div (total_period_length_of history) (int (length history)) \<rparr>)"
proof (cases "history = []")
  case True
  then show ?thesis by (simp add: calculate_predictions_empty)
next
  case False
  then obtain lr rest where srt: "sorted_periods_of history = lr # rest"
    using sorted_periods_of_Nil_iff [of history] by (cases "sorted_periods_of history") auto
  show ?thesis
    using False
    by (simp add: calculate_predictions_nonempty [OF srt] effective_avg_cycle_def
        computed_period_length_def)
qed

text \<open>
  C10 as the claim states it fails: a first run with the seven-day record changes the
  stored average menses length from 5 to 7.
\<close>

theorem call_with_week_changes_session:
  "ss_avg_period_length (initial_session (ymd 2024 1 10)) = 5
   \<and> ss_avg_period_length
       (snd (calculate_predictions (initial_session (ymd 2024 1 10)) [week_record] 28
               (ymd 2024 1 10))) = 7
   \<and> snd (calculate_predictions (initial_session (ymd 2024 1 10)) [week_record] 28
            (ymd 2024 1 10)) \<noteq> initial_session (ymd 2024 1 10)"
  by (simp add: week_call_session initial_session_def)

text \<open>C10, as the code computes it, on the three records of \<open>half_gap_history\<close>.\<close>

theorem session_state_after_call_witness:
  "snd (calculate_predictions (initial_session (ymd 2024 3 20)) half_gap_history 28
          (ymd 2024 3 20))
   = \<lparr> ss_periods = [], ss_avg_cycle = 30, ss_avg_period_length = 5,
       ss_query_date = ymd 2024 3 20 \<rparr>"
proof -
  have c: "py_round_div (total_cycle_length_of (map p_start (sorted_periods_of half_gap_history)))
             (int (length half_gap_history) - 1) = 30"
    using half_gap_effective [of 28] by (simp add: effective_avg_cycle_def half_gap_history_def)
  have m: "py_round_div (total_period_length_of half_gap_history)
             (int (length half_gap_history)) = 5"
    using half_gap_length by (simp add: computed_period_length_def)
  have n: "half_gap_history \<noteq> []" "length half_gap_history > 1"
    by (simp_all add: half_gap_history_def)
  have "snd (calculate_predictions (initial_session (ymd 2024 3 20)) half_gap_history 28
               (ymd 2024 3 20))
        = (initial_session (ymd 2024 3 20)) \<lparr> ss_avg_cycle := 30, ss_avg_period_length := 5 \<rparr>"
    using session_state_after_call
      [of "initial_session (ymd 2024 3 20)" half_gap_history 28 "ymd 2024 3 20"]
    by (simp only: c m n if_False if_True)
  then show ?thesis
    by (simp add: initial_session_def)
qed

end
